theory Spec2Isabelle
  imports Complex_Main "HOL-Library.Stream"
begin

section \<open>Conventions of the embedding\<close>

text \<open>
  Python floats are modelled as \<^typ>\<open>real\<close>: the arithmetic is exact, and the
  non-finite floats (inf, nan) have no counterpart. Python ints are \<^typ>\<open>int\<close>.
  A \<^verbatim>\<open>datetime\<close> is the number of microseconds since the epoch. The wall clock
  (\<^verbatim>\<open>datetime.now()\<close>) is a stream of readings: every call takes the head. The two
  global random generators (\<^verbatim>\<open>random\<close> and \<^verbatim>\<open>numpy.random\<close>) are streams of
  variates: every draw takes the head. Output written with \<^verbatim>\<open>print\<close> or a logger
  is not part of the state and is left out. Text built with f-strings is kept as a
  constructor holding the interpolated values.
\<close>

type_synonym datetime = int

type_synonym clock = "datetime stream"

type_synonym rng = "real stream"

datatype py_error = ZeroDivisionError | IndexError | KeyError | ValueError
  | UnboundLocalError | NonFinite

definition now :: "clock \<Rightarrow> datetime \<times> clock" where
  "now clk = (shd clk, stl clk)"

definition draw :: "rng \<Rightarrow> real \<times> rng" where
  "draw g = (shd g, stl g)"

section \<open>simulation/thermal\_safety.py\<close>

datatype ThermalStatus = NORMAL | WARNING | CRITICAL | SHUTDOWN

record ThermalThresholds =
  warning_temp :: real
  critical_temp :: real
  shutdown_temp :: real
  recovery_temp :: real

definition default_thresholds :: ThermalThresholds where
  "default_thresholds =
     \<lparr>warning_temp = 50.0, critical_temp = 55.0, shutdown_temp = 60.0, recovery_temp = 45.0\<rparr>"

datatype thermal_message =
    NoMessage
  | RecoveredMsg real
  | ShutdownWaitingMsg real
  | EmergencyShutdownMsg real real
  | CriticalMsg real real
  | WarningMsg real real
  | TemperatureNormalMsg real

record thermal_event =
  ev_type :: string
  ev_temperature :: real
  ev_timestamp :: datetime
  ev_message :: thermal_message

record ThermalSafetyManager =
  tsm_vehicle_id :: string
  thresholds :: ThermalThresholds
  current_status :: ThermalStatus
  shutdown_active :: bool
  warning_count :: int
  event_history :: "thermal_event list"

record check_result =
  res_temperature :: real
  res_status :: ThermalStatus
  res_action_required :: bool
  res_power_limit :: real
  res_message :: thermal_message
  res_timestamp :: datetime

definition ThermalSafetyManager_init :: "string \<Rightarrow> ThermalThresholds option \<Rightarrow> ThermalSafetyManager" where
  "ThermalSafetyManager_init vid th =
     \<lparr>tsm_vehicle_id = vid,
      thresholds = (case th of None \<Rightarrow> default_thresholds | Some t \<Rightarrow> t),
      current_status = NORMAL,
      shutdown_active = False,
      warning_count = 0,
      event_history = []\<rparr>"

text \<open>\<^verbatim>\<open>_log_event\<close>: append, then keep the last 1000 entries.\<close>

definition log_event ::
  "ThermalSafetyManager \<Rightarrow> string \<Rightarrow> real \<Rightarrow> datetime \<Rightarrow> thermal_message \<Rightarrow> ThermalSafetyManager" where
  "log_event m event_type temp ts msg =
     (let h = event_history m @ [\<lparr>ev_type = event_type, ev_temperature = temp,
                                  ev_timestamp = ts, ev_message = msg\<rparr>]
      in m\<lparr>event_history := (if length h > 1000 then drop (length h - 1000) h else h)\<rparr>)"

text \<open>
  The second half of \<^verbatim>\<open>check_temperature\<close> (``Determine current thermal status''),
  run on the manager and the result dictionary as the first half left them.
\<close>

definition determine_status ::
  "ThermalSafetyManager \<Rightarrow> check_result \<Rightarrow> ThermalStatus \<Rightarrow> real \<Rightarrow> datetime
     \<Rightarrow> check_result \<times> ThermalSafetyManager" where
  "determine_status m result previous_status current_temp ts =
     (if current_temp \<ge> shutdown_temp (thresholds m) then
        (let msg = EmergencyShutdownMsg current_temp (shutdown_temp (thresholds m));
             m1 = m\<lparr>current_status := SHUTDOWN, shutdown_active := True\<rparr>
         in (result\<lparr>res_status := SHUTDOWN, res_power_limit := 0.0,
                    res_action_required := True, res_message := msg\<rparr>,
             log_event m1 ''shutdown'' current_temp ts msg))
      else if current_temp \<ge> critical_temp (thresholds m) then
        (let msg = CriticalMsg current_temp (shutdown_temp (thresholds m));
             m1 = m\<lparr>current_status := CRITICAL\<rparr>
         in (result\<lparr>res_status := CRITICAL, res_power_limit := 0.3,
                    res_action_required := True, res_message := msg\<rparr>,
             log_event m1 ''critical'' current_temp ts msg))
      else if current_temp \<ge> warning_temp (thresholds m) then
        (let msg = WarningMsg current_temp (warning_temp (thresholds m));
             m1 = m\<lparr>current_status := WARNING, warning_count := warning_count m + 1\<rparr>
         in (result\<lparr>res_status := WARNING, res_power_limit := 0.7, res_message := msg\<rparr>,
             log_event m1 ''warning'' current_temp ts msg))
      else
        (let m1 = m\<lparr>current_status := NORMAL\<rparr>;
             result1 = result\<lparr>res_status := NORMAL\<rparr>
         in if previous_status \<noteq> NORMAL
            then (result1\<lparr>res_message := TemperatureNormalMsg current_temp\<rparr>,
                  m1\<lparr>warning_count := 0\<rparr>)
            else (result1, m1)))"

definition check_temperature ::
  "ThermalSafetyManager \<Rightarrow> real \<Rightarrow> datetime option \<Rightarrow> clock
     \<Rightarrow> check_result \<times> ThermalSafetyManager \<times> clock" where
  "check_temperature m current_temp timestamp clk =
     (let (ts, clk1) = (case timestamp of None \<Rightarrow> now clk | Some t \<Rightarrow> (t, clk));
          previous_status = current_status m;
          result = \<lparr>res_temperature = current_temp, res_status = NORMAL,
                    res_action_required = False, res_power_limit = 1.0,
                    res_message = NoMessage, res_timestamp = ts\<rparr>
      in if shutdown_active m then
           (if current_temp \<le> recovery_temp (thresholds m) then
              (let msg = RecoveredMsg current_temp;
                   m1 = m\<lparr>shutdown_active := False, current_status := NORMAL\<rparr>;
                   m2 = log_event m1 ''recovery'' current_temp ts msg;
                   (r, m3) = determine_status m2 (result\<lparr>res_message := msg\<rparr>)
                               previous_status current_temp ts
               in (r, m3, clk1))
            else
              (result\<lparr>res_status := SHUTDOWN, res_power_limit := 0.0,
                      res_action_required := True,
                      res_message := ShutdownWaitingMsg (recovery_temp (thresholds m))\<rparr>,
               m, clk1))
         else
           (let (r, m3) = determine_status m result previous_status current_temp ts
            in (r, m3, clk1)))"

text \<open>A sequence of checks on one manager: the results in order, and the final manager.\<close>

fun check_all ::
  "ThermalSafetyManager \<Rightarrow> clock \<Rightarrow> real list \<Rightarrow> check_result list \<times> ThermalSafetyManager \<times> clock" where
  "check_all m clk [] = ([], m, clk)"
| "check_all m clk (t # ts) =
     (case check_temperature m t None clk of
        (r, m1, clk1) \<Rightarrow>
          (case check_all m1 clk1 ts of (rs, m2, clk2) \<Rightarrow> (r # rs, m2, clk2)))"

text \<open>The step function of the specification: the power limit of each status.\<close>

fun status_power_limit :: "ThermalStatus \<Rightarrow> real" where
  "status_power_limit NORMAL = 1.0"
| "status_power_limit WARNING = 0.7"
| "status_power_limit CRITICAL = 0.3"
| "status_power_limit SHUTDOWN = 0.0"

section \<open>simulation/battery\_model.py\<close>

record BatterySpecs =
  vehicle_id :: string
  vehicle_make :: string
  model :: string
  nominal_capacity_kwh :: real
  nominal_voltage :: real
  max_voltage :: real
  min_voltage :: real
  max_charge_current :: real
  max_discharge_current :: real
  cell_configuration :: string
  thermal_mass :: real
  internal_resistance :: real

definition VEH001 :: BatterySpecs where
  "VEH001 =
     \<lparr>vehicle_id = ''VEH001'', vehicle_make = ''Tesla'', model = ''Model 3'',
      nominal_capacity_kwh = 82.0, nominal_voltage = 350.0, max_voltage = 420.0,
      min_voltage = 300.0, max_charge_current = 200.0, max_discharge_current = -250.0,
      cell_configuration = ''96s46p'', thermal_mass = 400.0, internal_resistance = 0.05\<rparr>"

definition VEH002 :: BatterySpecs where
  "VEH002 =
     \<lparr>vehicle_id = ''VEH002'', vehicle_make = ''Nissan'', model = ''Leaf'',
      nominal_capacity_kwh = 62.0, nominal_voltage = 350.0, max_voltage = 403.0,
      min_voltage = 300.0, max_charge_current = 100.0, max_discharge_current = -150.0,
      cell_configuration = ''96s2p'', thermal_mass = 300.0, internal_resistance = 0.08\<rparr>"

definition VEHICLE_SPECS :: "string \<rightharpoonup> BatterySpecs" where
  "VEHICLE_SPECS = [''VEH001'' \<mapsto> VEH001, ''VEH002'' \<mapsto> VEH002]"

record BatteryModel =
  specs :: BatterySpecs
  soc :: real
  soh :: real
  temperature :: real
  voltage :: real
  current :: real
  ambient_temp :: real
  effective_capacity_kwh :: real
  thermal_safety :: ThermalSafetyManager

text \<open>\<^verbatim>\<open>numpy.clip(a, a_min, a_max)\<close> is \<^verbatim>\<open>minimum(a_max, maximum(a, a_min))\<close>.\<close>

definition np_clip :: "real \<Rightarrow> real \<Rightarrow> real \<Rightarrow> real" where
  "np_clip a a_min a_max = min a_max (max a a_min)"

text \<open>\<^verbatim>\<open>_calculate_voltage\<close>: it reads the specifications only.\<close>

definition calculate_voltage :: "BatterySpecs \<Rightarrow> real \<Rightarrow> real" where
  "calculate_voltage sp soc_v =
     (let soc_norm = soc_v / 100.0;
          voltage_norm =
            (if soc_norm < 0.1 then 0.0 + (soc_norm / 0.1) * 0.2
             else if soc_norm < 0.9 then 0.2 + ((soc_norm - 0.1) / 0.8) * 0.6
             else 0.8 + ((soc_norm - 0.9) / 0.1) * 0.2);
          voltage_range = max_voltage sp - min_voltage sp
      in min_voltage sp + voltage_norm * voltage_range)"

definition BatteryModel_init :: "BatterySpecs \<Rightarrow> real \<Rightarrow> real \<Rightarrow> real \<Rightarrow> BatteryModel" where
  "BatteryModel_init sp initial_soc initial_temp soh_v =
     \<lparr>specs = sp, soc = initial_soc, soh = soh_v, temperature = initial_temp,
      voltage = calculate_voltage sp initial_soc, current = 0.0, ambient_temp = 20.0,
      effective_capacity_kwh = nominal_capacity_kwh sp * (soh_v / 100.0),
      thermal_safety = ThermalSafetyManager_init (vehicle_id sp) None\<rparr>"

text \<open>\<^verbatim>\<open>_calculate_voltage_under_load\<close>.\<close>

definition calculate_voltage_under_load :: "BatteryModel \<Rightarrow> real \<Rightarrow> real" where
  "calculate_voltage_under_load b cur =
     (let ocv = calculate_voltage (specs b) (soc b);
          voltage_drop = cur * internal_resistance (specs b);
          terminal_voltage = ocv - voltage_drop
      in np_clip terminal_voltage (min_voltage (specs b)) (max_voltage (specs b)))"

definition update_thermal :: "BatteryModel \<Rightarrow> clock \<Rightarrow> real \<Rightarrow> real \<Rightarrow> BatteryModel \<times> clock" where
  "update_thermal b clk dt power_w =
     (let heat_i2r = \<bar>current b\<bar> ^ 2 * internal_resistance (specs b);
          heat_generated = (if power_w > 0 then heat_i2r + \<bar>power_w\<bar> * 0.05 else heat_i2r);
          cooling_coefficient = 0.001;
          heat_removed = cooling_coefficient * (temperature b - ambient_temp b);
          specific_heat = 1000;
          temp_change = (heat_generated - heat_removed) * dt / (thermal_mass (specs b) * specific_heat);
          b1 = b\<lparr>temperature := temperature b + temp_change\<rparr>;
          (thermal_check, tsm1, clk1) = check_temperature (thermal_safety b1) (temperature b1) None clk;
          b2 = b1\<lparr>thermal_safety := tsm1\<rparr>;
          b3 = (if temperature b2 < 0
                then b2\<lparr>effective_capacity_kwh :=
                          nominal_capacity_kwh (specs b2) * (soh b2 / 100.0) * 0.8\<rparr>
                else b2)
      in (b3, clk1))"

definition update_soc :: "BatteryModel \<Rightarrow> real \<Rightarrow> real \<Rightarrow> BatteryModel" where
  "update_soc b cur dt =
     (let voltage_v = calculate_voltage_under_load b cur;
          power_w = voltage_v * cur;
          energy_change = power_w * dt / 3600.0;
          soc_change = (energy_change / (effective_capacity_kwh b * 1000)) * 100
      in b\<lparr>soc := np_clip (soc b + soc_change) 0.0 100.0\<rparr>)"

text \<open>
  The current limiting of \<^verbatim>\<open>apply_current\<close> (temperature derating, the more
  conservative limit, the CC-CV taper, the clamp). It reads the specifications, the state of
  charge and the temperature of the battery, and the power limit the thermal check returned.
\<close>

definition limit_current :: "BatterySpecs \<Rightarrow> real \<Rightarrow> real \<Rightarrow> real \<Rightarrow> real \<Rightarrow> real" where
  "limit_current sp soc_v temperature_v thermal_power_limit requested_current =
     (let temp_derate =
            (if temperature_v > 45 then max 0.5 (1.0 - (temperature_v - 45) / 20)
             else if temperature_v < 0 then max 0.3 (1.0 + temperature_v / 20)
             else 1.0);
          power_limit = min temp_derate thermal_power_limit;
          max_current =
            (if requested_current > 0 then
               (let mc = max_charge_current sp * power_limit
                in if soc_v > 80
                   then (let taper_factor = 1.0 - (soc_v - 80) / 20 in mc * max 0.1 taper_factor)
                   else mc)
             else max_discharge_current sp * power_limit)
      in if requested_current > 0 then min requested_current max_current
         else max requested_current max_current)"

definition apply_current ::
  "BatteryModel \<Rightarrow> clock \<Rightarrow> real \<Rightarrow> real \<Rightarrow> (real \<times> real \<times> real) \<times> BatteryModel \<times> clock" where
  "apply_current b clk requested_current dt =
     (let (thermal_check, tsm1, clk1) = check_temperature (thermal_safety b) (temperature b) None clk;
          b1 = b\<lparr>thermal_safety := tsm1\<rparr>;
          b2 = b1\<lparr>current := limit_current (specs b1) (soc b1) (temperature b1)
                                (res_power_limit thermal_check) requested_current\<rparr>;
          b3 = b2\<lparr>voltage := calculate_voltage_under_load b2 (current b2)\<rparr>;
          power_w = voltage b3 * current b3;
          b4 = update_soc b3 (current b3) dt;
          (b5, clk2) = update_thermal b4 clk1 dt power_w
      in ((current b5, voltage b5, power_w), b5, clk2))"

text \<open>A sequence of \<^verbatim>\<open>apply_current\<close> calls, each a pair (requested current, dt).\<close>

fun apply_currents :: "BatteryModel \<Rightarrow> clock \<Rightarrow> (real \<times> real) list \<Rightarrow> BatteryModel \<times> clock" where
  "apply_currents b clk [] = (b, clk)"
| "apply_currents b clk ((requested_current, dt) # calls) =
     (case apply_current b clk requested_current dt of
        (out, b1, clk1) \<Rightarrow> apply_currents b1 clk1 calls)"

text \<open>
  The denominators of the model are the effective capacity and the thermal mass; the
  arithmetic of the model is that of the program where they are positive.
\<close>

definition battery_ok :: "BatteryModel \<Rightarrow> bool" where
  "battery_ok b \<longleftrightarrow>
     0 < nominal_capacity_kwh (specs b) \<and> 0 < soh b \<and> 0 < effective_capacity_kwh b
     \<and> 0 < thermal_mass (specs b)"

text \<open>The limit of the specification: the derating curve, the combined limit, the taper.\<close>

definition spec_temp_derate :: "real \<Rightarrow> real" where
  "spec_temp_derate T =
     (if T > 45 then max 0.5 (1 - (T - 45) / 20)
      else if T < 0 then max 0.3 (1 + T / 20)
      else 1)"

definition spec_limit :: "BatteryModel \<Rightarrow> clock \<Rightarrow> real" where
  "spec_limit b clk =
     min (res_power_limit (fst (check_temperature (thermal_safety b) (temperature b) None clk)))
         (spec_temp_derate (temperature b))"

definition spec_taper :: "real \<Rightarrow> real" where
  "spec_taper s = max 0.1 (1 - (s - 80) / 20)"

definition spec_current_bound :: "BatteryModel \<Rightarrow> clock \<Rightarrow> real \<Rightarrow> real" where
  "spec_current_bound b clk requested_current =
     (if requested_current > 0 then
        spec_limit b clk * max_charge_current (specs b)
          * (if soc b > 80 then spec_taper (soc b) else 1)
      else spec_limit b clk * \<bar>max_discharge_current (specs b)\<bar>)"

section \<open>simulation/charging\_patterns.py\<close>

text \<open>
  The draws of \<^verbatim>\<open>numpy.random\<close>: a normal variate is the location plus the scale
  times the standard variate the stream holds; a uniform variate is the lower bound plus
  the width times the unit variate the stream holds.
\<close>

definition np_random_normal :: "real \<Rightarrow> real \<Rightarrow> rng \<Rightarrow> real \<times> rng" where
  "np_random_normal loc scale g = (case draw g of (z, g1) \<Rightarrow> (loc + scale * z, g1))"

definition np_random_random :: "rng \<Rightarrow> real \<times> rng" where
  "np_random_random g = draw g"

definition np_random_uniform :: "real \<Rightarrow> real \<Rightarrow> rng \<Rightarrow> real \<times> rng" where
  "np_random_uniform low high g = (case draw g of (u, g1) \<Rightarrow> (low + (high - low) * u, g1))"

text \<open>\<^verbatim>\<open>int(x)\<close> on a float truncates towards zero.\<close>

definition py_int :: "real \<Rightarrow> int" where
  "py_int x = (if 0 \<le> x then \<lfloor>x\<rfloor> else \<lceil>x\<rceil>)"

datatype ChargingType = AC_L1 | AC_L2 | DC_FAST | SUPERCHARGER

record charging_spec =
  max_power_kw :: real
  efficiency :: real
  charger_voltage :: int
  phases :: "int option"

fun CHARGING_SPECS :: "ChargingType \<Rightarrow> charging_spec" where
  "CHARGING_SPECS AC_L1 =
     \<lparr>max_power_kw = 1.4, efficiency = 0.85, charger_voltage = 240, phases = Some 1\<rparr>"
| "CHARGING_SPECS AC_L2 =
     \<lparr>max_power_kw = 11.0, efficiency = 0.90, charger_voltage = 240, phases = Some 2\<rparr>"
| "CHARGING_SPECS DC_FAST =
     \<lparr>max_power_kw = 50.0, efficiency = 0.95, charger_voltage = 400, phases = None\<rparr>"
| "CHARGING_SPECS SUPERCHARGER =
     \<lparr>max_power_kw = 150.0, efficiency = 0.97, charger_voltage = 400, phases = None\<rparr>"

record ChargingPatternGenerator =
  battery_voltage :: real

definition ChargingPatternGenerator_init :: "real \<Rightarrow> ChargingPatternGenerator" where
  "ChargingPatternGenerator_init battery_voltage_nominal = \<lparr>battery_voltage = battery_voltage_nominal\<rparr>"

text \<open>The variables the loop of \<^verbatim>\<open>generate_cc_cv_profile\<close> updates.\<close>

record cc_cv_state =
  current_soc :: real
  completed :: bool
  current_profile :: "real list"
  soc_profile :: "real list"
  np_rng :: rng

text \<open>
  The current of sample \<open>i\<close> before the noise, with the new value of \<^verbatim>\<open>completed\<close>
  and whether the current is a numpy float (the CV branch, through \<^verbatim>\<open>numpy.exp\<close>).
\<close>

definition nominal_current ::
  "ChargingType \<Rightarrow> real \<Rightarrow> real \<Rightarrow> real \<Rightarrow> real \<Rightarrow> nat \<Rightarrow> real \<Rightarrow> bool \<Rightarrow> real \<times> bool \<times> bool" where
  "nominal_current charging_type target_soc dt max_current cv_transition_soc i soc_v completed_v =
     (if soc_v \<ge> target_soc then (0, True, False)
      else if soc_v < cv_transition_soc then
        (let c1 = (if charging_type = SUPERCHARGER then
                     (let power_factor =
                            (if soc_v < 20 then 1.0
                             else if soc_v < 50 then 0.9
                             else 0.8 - (soc_v - 50) * 0.005)
                      in max_current * power_factor)
                   else max_current);
             c2 = (if real i < 10 / dt then (let ramp_factor = (real i * dt) / 10 in c1 * ramp_factor)
                   else c1)
         in (c2, completed_v, False))
      else
        (let soc_above_cv = soc_v - cv_transition_soc;
             taper_factor = exp (- soc_above_cv / 10)
         in (max_current * taper_factor * 0.5, completed_v, True)))"

text \<open>``Add realistic variations'': the jitter and the occasional dip on the current.\<close>

definition add_variations :: "real \<Rightarrow> rng \<Rightarrow> real \<times> rng" where
  "add_variations cur g =
     (if cur > 0 then
        (case np_random_normal 0 0.01 g of
           (n, g1) \<Rightarrow>
             (case np_random_random g1 of
                (u, g2) \<Rightarrow>
                  if u < 0.02
                  then (case np_random_uniform 0.7 0.9 g2 of (f, g3) \<Rightarrow> (cur * (1 + n) * f, g3))
                  else (cur * (1 + n), g2)))
      else (cur, g))"

text \<open>
  One iteration of the loop. Dividing a Python float by a zero capacity raises
  \<^verbatim>\<open>ZeroDivisionError\<close>; dividing a numpy float by it gives inf or nan, which the
  model has no value for and reports as \<open>NonFinite\<close>.
\<close>

definition cc_cv_step ::
  "ChargingType \<Rightarrow> real \<Rightarrow> real \<Rightarrow> real \<Rightarrow> real \<Rightarrow> real \<Rightarrow> real \<Rightarrow> nat \<Rightarrow> cc_cv_state
     \<Rightarrow> py_error + cc_cv_state" where
  "cc_cv_step charging_type bv target_soc battery_capacity_kwh dt max_current cv_transition_soc i st =
     (case nominal_current charging_type target_soc dt max_current cv_transition_soc i
             (current_soc st) (completed st) of
        (cur, completed1, is_numpy) \<Rightarrow>
          (let effective_current = cur * efficiency (CHARGING_SPECS charging_type);
               power_w = effective_current * bv;
               energy_delivered = power_w * dt / 3600
           in if battery_capacity_kwh * 1000 = 0
              then Inl (if is_numpy then NonFinite else ZeroDivisionError)
              else
                (let soc_increment = (energy_delivered / (battery_capacity_kwh * 1000)) * 100;
                     soc1 = min (current_soc st + soc_increment) 100.0
                 in (case add_variations cur (np_rng st) of
                       (cur1, g1) \<Rightarrow>
                         Inr \<lparr>current_soc = soc1, completed = completed1,
                              current_profile = current_profile st @ [cur1],
                              soc_profile = soc_profile st @ [soc1],
                              np_rng = g1\<rparr>))))"

text \<open>\<^verbatim>\<open>for i in range(samples)\<close>, from index \<open>i\<close> with \<open>n\<close> iterations left.\<close>

fun cc_cv_loop ::
  "ChargingType \<Rightarrow> real \<Rightarrow> real \<Rightarrow> real \<Rightarrow> real \<Rightarrow> real \<Rightarrow> real \<Rightarrow> nat \<Rightarrow> nat \<Rightarrow> cc_cv_state
     \<Rightarrow> py_error + cc_cv_state" where
  "cc_cv_loop charging_type bv target_soc cap dt max_current cv i 0 st = Inr st"
| "cc_cv_loop charging_type bv target_soc cap dt max_current cv i (Suc n) st =
     (case cc_cv_step charging_type bv target_soc cap dt max_current cv i st of
        Inl e \<Rightarrow> Inl e
      | Inr st1 \<Rightarrow> cc_cv_loop charging_type bv target_soc cap dt max_current cv (Suc i) n st1)"

definition generate_cc_cv_profile ::
  "ChargingPatternGenerator \<Rightarrow> rng \<Rightarrow> ChargingType \<Rightarrow> real \<Rightarrow> real \<Rightarrow> real \<Rightarrow> int \<Rightarrow> real
     \<Rightarrow> py_error + ((real list \<times> real list \<times> bool) \<times> rng)" where
  "generate_cc_cv_profile self g charging_type initial_soc target_soc battery_capacity_kwh
       duration_seconds dt =
     (if dt = 0 then Inl ZeroDivisionError
      else
        (let samples = nat (py_int (real_of_int duration_seconds / dt));
             max_power_w = max_power_kw (CHARGING_SPECS charging_type) * 1000
         in if battery_voltage self = 0 then Inl ZeroDivisionError
            else
              (let max_current = max_power_w / battery_voltage self;
                   cv_transition_soc =
                     (if charging_type \<in> {DC_FAST, SUPERCHARGER} then 80.0 else 85.0)
               in (case cc_cv_loop charging_type (battery_voltage self) target_soc
                         battery_capacity_kwh dt max_current cv_transition_soc 0 samples
                         \<lparr>current_soc = initial_soc, completed = False, current_profile = [],
                          soc_profile = [], np_rng = g\<rparr> of
                     Inl e \<Rightarrow> Inl e
                   | Inr st \<Rightarrow> Inr ((current_profile st, soc_profile st, completed st), np_rng st)))))"

text \<open>The part of a result the noise should not reach: the SoC profile and the flag.\<close>

definition soc_and_completed ::
  "py_error + ((real list \<times> real list \<times> bool) \<times> rng) \<Rightarrow> py_error + (real list \<times> bool)" where
  "soc_and_completed res =
     (case res of Inl e \<Rightarrow> Inl e | Inr ((cur, socs, done), g) \<Rightarrow> Inr (socs, done))"

text \<open>
  The integrated SoC at the start of sample \<open>i\<close>: the initial SoC for the first sample,
  the SoC the previous sample reported otherwise.
\<close>

definition soc_at_start :: "real \<Rightarrow> real list \<Rightarrow> nat \<Rightarrow> real" where
  "soc_at_start initial_soc socs i = (if i = 0 then initial_soc else socs ! (i - 1))"

text \<open>The loop state without the noisy current profile and the generator.\<close>

definition cc_cv_core :: "cc_cv_state \<Rightarrow> real \<times> bool \<times> real list" where
  "cc_cv_core st = (current_soc st, completed st, soc_profile st)"

text \<open>
  What holds of the loop state before sample \<open>i\<close>: the profiles have \<open>i\<close> entries, the
  running SoC is the SoC at the start of sample \<open>i\<close>, the flag is set exactly when some
  earlier sample started at or above the target, each such sample has current 0 and
  (for a target of at most 100) reported a SoC at or above the target.
\<close>

definition cc_cv_inv :: "real \<Rightarrow> real \<Rightarrow> nat \<Rightarrow> cc_cv_state \<Rightarrow> bool" where
  "cc_cv_inv initial_soc target_soc i st \<longleftrightarrow>
     length (current_profile st) = i \<and> length (soc_profile st) = i
     \<and> current_soc st = soc_at_start initial_soc (soc_profile st) i
     \<and> (completed st \<longleftrightarrow> (\<exists>k<i. target_soc \<le> soc_at_start initial_soc (soc_profile st) k))
     \<and> (\<forall>k<i. target_soc \<le> soc_at_start initial_soc (soc_profile st) k
            \<longrightarrow> current_profile st ! k = 0
                \<and> (target_soc \<le> 100 \<longrightarrow> target_soc \<le> soc_profile st ! k))"

section \<open>simulation/user\_profiles\_v2.py\<close>

text \<open>
  The draws of the \<^verbatim>\<open>random\<close> module: \<^verbatim>\<open>random.random()\<close> is the next variate
  of the stream, \<^verbatim>\<open>random.uniform(a, b)\<close> is \<^verbatim>\<open>a + (b - a) * random()\<close>.
\<close>

definition random_random :: "rng \<Rightarrow> real \<times> rng" where
  "random_random g = draw g"

definition random_uniform :: "real \<Rightarrow> real \<Rightarrow> rng \<Rightarrow> real \<times> rng" where
  "random_uniform a b g = (case random_random g of (u, g1) \<Rightarrow> (a + (b - a) * u, g1))"

datatype UserProfile = COMMON_DRIVER

text \<open>A \<^verbatim>\<open>datetime.time\<close> is a pair (hour, minute).\<close>

type_synonym time_of_day = "nat \<times> nat"

record UserBehavior =
  profile_type :: UserProfile
  wake_time_range :: "time_of_day \<times> time_of_day"
  sleep_time_range :: "time_of_day \<times> time_of_day"
  peak_activity_hours :: "int list"
  preferred_driving_mode :: string
  avg_daily_distance_miles :: "real \<times> real"
  weekend_distance_multiplier :: real
  preferred_soc_min :: real
  preferred_soc_target :: real
  charging_anxiety_factor :: real
  base_charges_per_week :: real
  night_charging_probability :: real
  opportunity_charging_probability :: real
  spontaneity_factor :: real
  planning_factor :: real
  eco_consciousness :: real
  performance_preference :: real

fun USER_PROFILES_V2 :: "UserProfile \<Rightarrow> UserBehavior" where
  "USER_PROFILES_V2 COMMON_DRIVER =
     \<lparr>profile_type = COMMON_DRIVER,
      wake_time_range = ((6, 30), (7, 30)),
      sleep_time_range = ((22, 0), (23, 0)),
      peak_activity_hours = [8, 9, 10, 11, 14, 15, 16, 17],
      preferred_driving_mode = ''normal'',
      avg_daily_distance_miles = (28, 40),
      weekend_distance_multiplier = 1.2,
      preferred_soc_min = 25.0,
      preferred_soc_target = 85.0,
      charging_anxiety_factor = 1.0,
      base_charges_per_week = 4.5,
      night_charging_probability = 0.80,
      opportunity_charging_probability = 0.35,
      spontaneity_factor = 0.5,
      planning_factor = 0.7,
      eco_consciousness = 0.6,
      performance_preference = 0.4\<rparr>"

record UserBehaviorSimulator =
  profile :: UserProfile
  behavior :: UserBehavior
  charges_this_week :: int
  days_since_last_charge :: int

text \<open>
  The constructor; seeding the generators (\<^verbatim>\<open>if seed:\<close>) is the caller's choice of
  the stream.
\<close>

definition UserBehaviorSimulator_init :: "UserProfile \<Rightarrow> UserBehaviorSimulator" where
  "UserBehaviorSimulator_init p =
     \<lparr>profile = p, behavior = USER_PROFILES_V2 p, charges_this_week = 0,
      days_since_last_charge = 0\<rparr>"

text \<open>Counting a charge: \<^verbatim>\<open>_charges_this_week += 1; _days_since_last_charge = 0\<close>.\<close>

definition count_charge :: "UserBehaviorSimulator \<Rightarrow> UserBehaviorSimulator" where
  "count_charge s = s\<lparr>charges_this_week := charges_this_week s + 1, days_since_last_charge := 0\<rparr>"

text \<open>The end of \<^verbatim>\<open>should_charge\<close>, from ``Track days since charge'' on.\<close>

definition track_days ::
  "UserBehaviorSimulator \<Rightarrow> rng \<Rightarrow> real \<Rightarrow> (bool \<times> real) \<times> UserBehaviorSimulator \<times> rng" where
  "track_days s g current_soc_v =
     (let s1 = s\<lparr>days_since_last_charge := days_since_last_charge s + 1\<rparr>
      in if days_since_last_charge s1 \<ge> 4 \<and> current_soc_v < 40.0
         then ((True, preferred_soc_target (behavior s1)), count_charge s1, g)
         else ((False, 0), s1, g))"

text \<open>The opportunity charging of \<^verbatim>\<open>should_charge\<close>, and what follows it.\<close>

definition opportunity_charging ::
  "UserBehaviorSimulator \<Rightarrow> rng \<Rightarrow> real \<Rightarrow> int \<Rightarrow> (bool \<times> real) \<times> UserBehaviorSimulator \<times> rng" where
  "opportunity_charging s g current_soc_v hour =
     (if real_of_int (charges_this_week s) < base_charges_per_week (behavior s) then
        (if 22 \<le> hour \<or> hour \<le> 6 then
           (if current_soc_v < preferred_soc_target (behavior s) * 0.9 then
              (case random_random g of
                 (u, g1) \<Rightarrow>
                   if u < night_charging_probability (behavior s)
                   then ((True, preferred_soc_target (behavior s)), count_charge s, g1)
                   else track_days s g1 current_soc_v)
            else track_days s g current_soc_v)
         else if current_soc_v < preferred_soc_target (behavior s) * 0.7 then
           (case random_random g of
              (u, g1) \<Rightarrow>
                if u < opportunity_charging_probability (behavior s)
                then (case random_uniform (current_soc_v + 15) (preferred_soc_target (behavior s)) g1 of
                        (target, g2) \<Rightarrow> ((True, min target 95.0), count_charge s, g2))
                else track_days s g1 current_soc_v)
         else track_days s g current_soc_v)
      else track_days s g current_soc_v)"

definition should_charge ::
  "UserBehaviorSimulator \<Rightarrow> rng \<Rightarrow> real \<Rightarrow> int \<Rightarrow> int \<Rightarrow> (bool \<times> real) \<times> UserBehaviorSimulator \<times> rng" where
  "should_charge s g current_soc_v hour day_of_week =
     (let s1 = (if day_of_week = 6 then s\<lparr>charges_this_week := 0\<rparr> else s)
      in if current_soc_v < 15.0 then ((True, preferred_soc_target (behavior s1)), s1, g)
         else if current_soc_v \<le> preferred_soc_min (behavior s1) then
           (if real_of_int (charges_this_week s1) < base_charges_per_week (behavior s1)
            then ((True, preferred_soc_target (behavior s1)), count_charge s1, g)
            else if current_soc_v < 20.0
                 then ((True, preferred_soc_target (behavior s1)), s1, g)
                 else opportunity_charging s1 g current_soc_v hour)
         else opportunity_charging s1 g current_soc_v hour)"

text \<open>The target of the daytime opportunity charge, as \<^verbatim>\<open>should_charge\<close> draws it.\<close>

definition daytime_target :: "UserBehaviorSimulator \<Rightarrow> rng \<Rightarrow> real \<Rightarrow> real" where
  "daytime_target s g current_soc_v =
     min (fst (random_uniform (current_soc_v + 15) (preferred_soc_target (behavior s)) (stl g))) 95"

section \<open>simulation/anomaly\_generator.py\<close>

text \<open>Python list indexing: negative indices count from the end, others raise.\<close>

definition py_index :: "'a list \<Rightarrow> int \<Rightarrow> py_error + 'a" where
  "py_index xs i =
     (if 0 \<le> i \<and> i < int (length xs) then Inr (xs ! nat i)
      else if i < 0 \<and> - int (length xs) \<le> i then Inr (xs ! nat (int (length xs) + i))
      else Inl IndexError)"

definition py_setitem :: "'a list \<Rightarrow> int \<Rightarrow> 'a \<Rightarrow> py_error + 'a list" where
  "py_setitem xs i v =
     (if 0 \<le> i \<and> i < int (length xs) then Inr (xs[nat i := v])
      else if i < 0 \<and> - int (length xs) \<le> i then Inr (xs[nat (int (length xs) + i) := v])
      else Inl IndexError)"

text \<open>\<^verbatim>\<open>timedelta(seconds=n)\<close> in microseconds.\<close>

definition timedelta_seconds :: "int \<Rightarrow> int" where
  "timedelta_seconds n = n * 1000000"

datatype param_value = Num real | Str string

datatype anomaly_description = CoolingFailureDesc real | SensorGlitchDesc string

record AnomalyEvent =
  event_type :: string
  start_time :: datetime
  end_time :: datetime
  severity :: string
  description :: anomaly_description
  affected_metrics :: "string list"
  parameters :: "(string \<times> param_value) list"

text \<open>\<^verbatim>\<open>severity_params[severity]\<close>: the rate and the peak, or \<^verbatim>\<open>KeyError\<close>.\<close>

definition severity_params :: "real \<Rightarrow> string \<Rightarrow> py_error + (real \<times> real)" where
  "severity_params normal_temp sev =
     (if sev = ''low'' then Inr (0.5, normal_temp + 10)
      else if sev = ''medium'' then Inr (1.0, normal_temp + 20)
      else if sev = ''high'' then Inr (2.0, normal_temp + 30)
      else if sev = ''critical'' then Inr (3.0, normal_temp + 40)
      else Inl KeyError)"

text \<open>The rise loop of \<^verbatim>\<open>generate_thermal_event\<close>, from \<open>t\<close> with \<open>n\<close> iterations left.\<close>

fun thermal_rise :: "real \<Rightarrow> real \<Rightarrow> real \<Rightarrow> nat \<Rightarrow> nat \<Rightarrow> rng \<Rightarrow> real list \<times> rng" where
  "thermal_rise normal_temp rate peak t 0 g = ([], g)"
| "thermal_rise normal_temp rate peak t (Suc n) g =
     (case np_random_normal 0 0.05 g of
        (z, g1) \<Rightarrow>
          (let temp_rise = rate * real t / 60;
               temp = min (normal_temp + temp_rise * (1 + z)) peak
           in (case thermal_rise normal_temp rate peak (Suc t) n g1 of
                 (rest, g2) \<Rightarrow> (temp # rest, g2))))"

text \<open>The fall loop, from \<open>t\<close> with \<open>n\<close> iterations left.\<close>

fun thermal_fall :: "real \<Rightarrow> real \<Rightarrow> int \<Rightarrow> nat \<Rightarrow> nat \<Rightarrow> rng \<Rightarrow> real list \<times> rng" where
  "thermal_fall normal_temp peak_temp fall_duration t 0 g = ([], g)"
| "thermal_fall normal_temp peak_temp fall_duration t (Suc n) g =
     (case np_random_normal 0 1 g of
        (z, g1) \<Rightarrow>
          (let temp_fall = (peak_temp - normal_temp)
                             * exp (- real t / (real_of_int fall_duration / 3));
               temp = normal_temp + temp_fall + z
           in (case thermal_fall normal_temp peak_temp fall_duration (Suc t) n g1 of
                 (rest, g2) \<Rightarrow> (temp # rest, g2))))"

definition generate_thermal_event ::
  "real \<Rightarrow> int \<Rightarrow> string \<Rightarrow> rng \<Rightarrow> clock
     \<Rightarrow> py_error + ((real list \<times> AnomalyEvent) \<times> rng \<times> clock)" where
  "generate_thermal_event normal_temp duration_seconds sev g clk =
     (case severity_params normal_temp sev of
        Inl e \<Rightarrow> Inl e
      | Inr (rate, peak) \<Rightarrow>
          (let rise_duration = duration_seconds div 2
           in (case thermal_rise normal_temp rate peak 0 (nat rise_duration) g of
                 (rise, g1) \<Rightarrow>
                   (let fall_duration = duration_seconds - rise_duration
                    in (case py_index rise (- 1) of
                          Inl e \<Rightarrow> Inl e
                        | Inr peak_temp \<Rightarrow>
                            (case thermal_fall normal_temp peak_temp fall_duration 0
                                    (nat fall_duration) g1 of
                               (fall, g2) \<Rightarrow>
                                 (case now clk of
                                    (t1, clk1) \<Rightarrow>
                                      (case now clk1 of
                                         (t2, clk2) \<Rightarrow>
                                           Inr ((rise @ fall,
                                                 \<lparr>event_type = ''thermal_event'',
                                                  start_time = t1,
                                                  end_time = t2 + timedelta_seconds duration_seconds,
                                                  severity = sev,
                                                  description = CoolingFailureDesc rate,
                                                  affected_metrics =
                                                    [''temperature'', ''max_cell_temp'', ''min_cell_temp''],
                                                  parameters =
                                                    [(''peak_temperature'', Num peak),
                                                     (''rise_rate'', Num rate),
                                                     (''normal_temp'', Num normal_temp)]\<rparr>),
                                                g2, clk2)))))))))"

text \<open>The loops of \<^verbatim>\<open>generate_sensor_glitch\<close>, one for each glitch type.\<close>

fun glitch_spike :: "real \<Rightarrow> real \<Rightarrow> int \<Rightarrow> nat \<Rightarrow> nat \<Rightarrow> real list" where
  "glitch_spike normal_value spike_magnitude duration_samples i 0 = []"
| "glitch_spike normal_value spike_magnitude duration_samples i (Suc n) =
     (if i = 0 then spike_magnitude
      else (let decay = exp (- real i / (real_of_int duration_samples / 3))
            in normal_value + (spike_magnitude - normal_value) * decay))
     # glitch_spike normal_value spike_magnitude duration_samples (Suc i) n"

fun glitch_dropout :: "real \<Rightarrow> nat \<Rightarrow> rng \<Rightarrow> real list \<times> rng" where
  "glitch_dropout normal_value 0 g = ([], g)"
| "glitch_dropout normal_value (Suc n) g =
     (case np_random_uniform 0 (normal_value * 0.1) g of
        (v, g1) \<Rightarrow> (case glitch_dropout normal_value n g1 of (rest, g2) \<Rightarrow> (v # rest, g2)))"

fun glitch_noise :: "real \<Rightarrow> nat \<Rightarrow> rng \<Rightarrow> real list \<times> rng" where
  "glitch_noise normal_value 0 g = ([], g)"
| "glitch_noise normal_value (Suc n) g =
     (case np_random_normal 0 (normal_value * 0.5) g of
        (noise, g1) \<Rightarrow>
          (case glitch_noise normal_value n g1 of (rest, g2) \<Rightarrow> ((normal_value + noise) # rest, g2)))"

text \<open>
  \<^verbatim>\<open>numpy.random.normal\<close> raises \<^verbatim>\<open>ValueError\<close> for a negative scale, and
  \<^verbatim>\<open>max\<close> of an empty sequence raises \<^verbatim>\<open>ValueError\<close>.
\<close>

definition generate_sensor_glitch ::
  "real \<Rightarrow> string \<Rightarrow> int \<Rightarrow> rng \<Rightarrow> clock
     \<Rightarrow> py_error + ((real list \<times> AnomalyEvent) \<times> rng \<times> clock)" where
  "generate_sensor_glitch normal_value glitch_type duration_samples g clk =
     (case (if glitch_type = ''spike'' then
              (case np_random_uniform 5 10 g of
                 (u, g1) \<Rightarrow>
                   Inr (glitch_spike normal_value (normal_value * u) duration_samples 0
                          (nat duration_samples), g1))
            else if glitch_type = ''dropout'' then
              Inr (glitch_dropout normal_value (nat duration_samples) g)
            else if glitch_type = ''noise'' then
              (if 0 < duration_samples \<and> normal_value * 0.5 < 0 then Inl ValueError
               else Inr (glitch_noise normal_value (nat duration_samples) g))
            else Inr ([], g)) of
        Inl e \<Rightarrow> Inl e
      | Inr (glitched_values, g1) \<Rightarrow>
          (case now clk of
             (t1, clk1) \<Rightarrow>
               (case now clk1 of
                  (t2, clk2) \<Rightarrow>
                    if glitched_values = [] then Inl ValueError
                    else
                      Inr ((glitched_values,
                            \<lparr>event_type = ''sensor_glitch'',
                             start_time = t1,
                             end_time = t2 + timedelta_seconds duration_samples,
                             severity = ''low'',
                             description = SensorGlitchDesc glitch_type,
                             affected_metrics = [''voltage'', ''current''],
                             parameters =
                               [(''glitch_type'', Str glitch_type),
                                (''normal_value'', Num normal_value),
                                (''max_deviation'',
                                 Num (Max (set (map (\<lambda>v. \<bar>v - normal_value\<bar>) glitched_values))))]\<rparr>),
                           g1, clk2))))"

text \<open>The keys \<^verbatim>\<open>inject_anomalies\<close> reads from the parameters of a request.\<close>

record anomaly_params =
  p_duration :: "int option"
  p_severity :: "string option"
  p_glitch_type :: "string option"

definition no_params :: anomaly_params where
  "no_params = \<lparr>p_duration = None, p_severity = None, p_glitch_type = None\<rparr>"

text \<open>
  \<^verbatim>\<open>for i, v in enumerate(values): if start_idx + i < len(xs): xs[start_idx + i] = v\<close>,
  from offset \<open>i\<close>.
\<close>

fun inject_values :: "real list \<Rightarrow> int \<Rightarrow> nat \<Rightarrow> real list \<Rightarrow> py_error + real list" where
  "inject_values xs start_idx i [] = Inr xs"
| "inject_values xs start_idx i (v # vs) =
     (if start_idx + int i < int (length xs) then
        (case py_setitem xs (start_idx + int i) v of
           Inl e \<Rightarrow> Inl e
         | Inr xs1 \<Rightarrow> inject_values xs1 start_idx (Suc i) vs)
      else inject_values xs start_idx (Suc i) vs)"

text \<open>
  One request of \<^verbatim>\<open>inject_anomalies\<close>: the modified data, the variable
  \<^verbatim>\<open>event\<close> (unbound before the first thermal or sensor-glitch request), the events.
\<close>

definition inject_one ::
  "(string \<rightharpoonup> real list) \<Rightarrow> (string \<times> int \<times> anomaly_params)
     \<Rightarrow> (string \<rightharpoonup> real list) \<times> AnomalyEvent option \<times> AnomalyEvent list \<times> rng \<times> clock
     \<Rightarrow> py_error + ((string \<rightharpoonup> real list) \<times> AnomalyEvent option \<times> AnomalyEvent list \<times> rng \<times> clock)" where
  "inject_one base_data request st =
     (case request of
        (anomaly_type, start_idx, params) \<Rightarrow>
     (case st of
        (modified_data, event, events, g, clk) \<Rightarrow>
     (case (if anomaly_type = ''thermal'' then
              (case base_data ''temperature'' of
                 None \<Rightarrow> Inl KeyError
               | Some series \<Rightarrow>
                   (case py_index series start_idx of
                      Inl e \<Rightarrow> Inl e
                    | Inr normal_temp \<Rightarrow>
                        (case generate_thermal_event normal_temp
                                (case p_duration params of None \<Rightarrow> 300 | Some d \<Rightarrow> d)
                                (case p_severity params of None \<Rightarrow> ''medium'' | Some s \<Rightarrow> s) g clk of
                           Inl e \<Rightarrow> Inl e
                         | Inr ((temp_profile, ev), g1, clk1) \<Rightarrow>
                             (case modified_data ''temperature'' of
                                None \<Rightarrow> Inl KeyError
                              | Some target \<Rightarrow>
                                  (case inject_values target start_idx 0 temp_profile of
                                     Inl e \<Rightarrow> Inl e
                                   | Inr target1 \<Rightarrow>
                                       Inr (modified_data(''temperature'' \<mapsto> target1),
                                            Some ev, g1, clk1))))))
            else if anomaly_type = ''sensor_glitch'' then
              (case base_data ''voltage'' of
                 None \<Rightarrow> Inl KeyError
               | Some series \<Rightarrow>
                   (case py_index series start_idx of
                      Inl e \<Rightarrow> Inl e
                    | Inr normal_value \<Rightarrow>
                        (case generate_sensor_glitch normal_value
                                (case p_glitch_type params of None \<Rightarrow> ''spike'' | Some s \<Rightarrow> s)
                                (case p_duration params of None \<Rightarrow> 1 | Some d \<Rightarrow> d) g clk of
                           Inl e \<Rightarrow> Inl e
                         | Inr ((glitch_values, ev), g1, clk1) \<Rightarrow>
                             (case modified_data ''voltage'' of
                                None \<Rightarrow> Inl KeyError
                              | Some target \<Rightarrow>
                                  (case inject_values target start_idx 0 glitch_values of
                                     Inl e \<Rightarrow> Inl e
                                   | Inr target1 \<Rightarrow>
                                       Inr (modified_data(''voltage'' \<mapsto> target1),
                                            Some ev, g1, clk1))))))
            else Inr (modified_data, event, g, clk)) of
        Inl e \<Rightarrow> Inl e
      | Inr (modified_data1, event1, g1, clk1) \<Rightarrow>
          (case event1 of
             None \<Rightarrow> Inl UnboundLocalError
           | Some ev \<Rightarrow> Inr (modified_data1, event1, events @ [ev], g1, clk1)))))"

fun inject_loop ::
  "(string \<rightharpoonup> real list) \<Rightarrow> (string \<times> int \<times> anomaly_params) list
     \<Rightarrow> (string \<rightharpoonup> real list) \<times> AnomalyEvent option \<times> AnomalyEvent list \<times> rng \<times> clock
     \<Rightarrow> py_error + ((string \<rightharpoonup> real list) \<times> AnomalyEvent option \<times> AnomalyEvent list \<times> rng \<times> clock)" where
  "inject_loop base_data [] st = Inr st"
| "inject_loop base_data (request # requests) st =
     (case inject_one base_data request st of
        Inl e \<Rightarrow> Inl e
      | Inr st1 \<Rightarrow> inject_loop base_data requests st1)"

text \<open>
  \<^verbatim>\<open>inject_anomalies\<close>. The copy of the base data is the base data itself: the model
  has no aliasing. The time step \<^verbatim>\<open>dt\<close> is not read.
\<close>

definition inject_anomalies ::
  "(string \<rightharpoonup> real list) \<Rightarrow> (string \<times> int \<times> anomaly_params) list \<Rightarrow> real \<Rightarrow> rng \<Rightarrow> clock
     \<Rightarrow> py_error + (((string \<rightharpoonup> real list) \<times> AnomalyEvent list) \<times> rng \<times> clock)" where
  "inject_anomalies base_data anomaly_events dt g clk =
     (case inject_loop base_data anomaly_events (base_data, None, [], g, clk) of
        Inl e \<Rightarrow> Inl e
      | Inr (modified_data, event, events, g1, clk1) \<Rightarrow> Inr ((modified_data, events), g1, clk1))"

section \<open>simulation/user\_profiles.py\<close>

text \<open>
  The first generation of the profiles, which \<^verbatim>\<open>simulator.py\<close> imports. Its names
  carry the prefix \<open>v1\<close> where the second generation has the same ones.
\<close>

datatype UserProfile_v1 = NIGHT_OWL | EARLY_BIRD | SPONTANEOUS | CAUTIOUS | COMMUTER
  | WEEKEND_WARRIOR | ECO_CONSCIOUS | PERFORMANCE_ENTHUSIAST

record UserBehavior_v1 =
  v1_profile_type :: UserProfile_v1
  v1_wake_time_range :: "time_of_day \<times> time_of_day"
  v1_sleep_time_range :: "time_of_day \<times> time_of_day"
  v1_peak_activity_hours :: "int list"
  v1_preferred_driving_mode :: string
  v1_avg_daily_distance_km :: "real \<times> real"
  v1_weekend_distance_multiplier :: real
  v1_preferred_soc_min :: real
  v1_preferred_soc_target :: real
  v1_charging_anxiety_factor :: real
  v1_night_charging_probability :: real
  v1_opportunity_charging_probability :: real
  v1_spontaneity_factor :: real
  v1_planning_factor :: real
  v1_eco_consciousness :: real
  v1_performance_preference :: real

fun USER_PROFILES :: "UserProfile_v1 \<Rightarrow> UserBehavior_v1" where
  "USER_PROFILES NIGHT_OWL =
     \<lparr>v1_profile_type = NIGHT_OWL,
      v1_wake_time_range = ((10, 0), (12, 0)),
      v1_sleep_time_range = ((2, 0), (4, 0)),
      v1_peak_activity_hours = [14, 15, 16, 20, 21, 22, 23, 0, 1],
      v1_preferred_driving_mode = ''normal'',
      v1_avg_daily_distance_km = (30, 80),
      v1_weekend_distance_multiplier = 1.5,
      v1_preferred_soc_min = 20.0,
      v1_preferred_soc_target = 80.0,
      v1_charging_anxiety_factor = 0.7,
      v1_night_charging_probability = 0.3,
      v1_opportunity_charging_probability = 0.4,
      v1_spontaneity_factor = 0.8,
      v1_planning_factor = 0.3,
      v1_eco_consciousness = 0.4,
      v1_performance_preference = 0.6\<rparr>"
| "USER_PROFILES EARLY_BIRD =
     \<lparr>v1_profile_type = EARLY_BIRD,
      v1_wake_time_range = ((5, 0), (6, 30)),
      v1_sleep_time_range = ((21, 0), (22, 30)),
      v1_peak_activity_hours = [6, 7, 8, 9, 10, 11],
      v1_preferred_driving_mode = ''eco'',
      v1_avg_daily_distance_km = (40, 100),
      v1_weekend_distance_multiplier = 0.8,
      v1_preferred_soc_min = 40.0,
      v1_preferred_soc_target = 90.0,
      v1_charging_anxiety_factor = 1.3,
      v1_night_charging_probability = 0.9,
      v1_opportunity_charging_probability = 0.2,
      v1_spontaneity_factor = 0.2,
      v1_planning_factor = 0.9,
      v1_eco_consciousness = 0.7,
      v1_performance_preference = 0.3\<rparr>"
| "USER_PROFILES SPONTANEOUS =
     \<lparr>v1_profile_type = SPONTANEOUS,
      v1_wake_time_range = ((7, 0), (11, 0)),
      v1_sleep_time_range = ((22, 0), (2, 0)),
      v1_peak_activity_hours = [10, 11, 12, 13, 14, 15, 16, 17, 18, 19, 20, 21],
      v1_preferred_driving_mode = ''mixed'',
      v1_avg_daily_distance_km = (20, 150),
      v1_weekend_distance_multiplier = 1.2,
      v1_preferred_soc_min = 15.0,
      v1_preferred_soc_target = 70.0,
      v1_charging_anxiety_factor = 0.5,
      v1_night_charging_probability = 0.5,
      v1_opportunity_charging_probability = 0.6,
      v1_spontaneity_factor = 0.95,
      v1_planning_factor = 0.1,
      v1_eco_consciousness = 0.5,
      v1_performance_preference = 0.7\<rparr>"
| "USER_PROFILES CAUTIOUS =
     \<lparr>v1_profile_type = CAUTIOUS,
      v1_wake_time_range = ((6, 30), (7, 30)),
      v1_sleep_time_range = ((22, 0), (23, 0)),
      v1_peak_activity_hours = [8, 9, 10, 14, 15, 16, 17],
      v1_preferred_driving_mode = ''eco'',
      v1_avg_daily_distance_km = (30, 60),
      v1_weekend_distance_multiplier = 0.9,
      v1_preferred_soc_min = 50.0,
      v1_preferred_soc_target = 95.0,
      v1_charging_anxiety_factor = 1.5,
      v1_night_charging_probability = 0.95,
      v1_opportunity_charging_probability = 0.7,
      v1_spontaneity_factor = 0.1,
      v1_planning_factor = 0.95,
      v1_eco_consciousness = 0.8,
      v1_performance_preference = 0.1\<rparr>"
| "USER_PROFILES COMMUTER =
     \<lparr>v1_profile_type = COMMUTER,
      v1_wake_time_range = ((6, 0), (7, 0)),
      v1_sleep_time_range = ((22, 30), (23, 30)),
      v1_peak_activity_hours = [7, 8, 17, 18],
      v1_preferred_driving_mode = ''normal'',
      v1_avg_daily_distance_km = (60, 120),
      v1_weekend_distance_multiplier = 0.4,
      v1_preferred_soc_min = 30.0,
      v1_preferred_soc_target = 85.0,
      v1_charging_anxiety_factor = 1.1,
      v1_night_charging_probability = 0.8,
      v1_opportunity_charging_probability = 0.3,
      v1_spontaneity_factor = 0.3,
      v1_planning_factor = 0.7,
      v1_eco_consciousness = 0.6,
      v1_performance_preference = 0.4\<rparr>"
| "USER_PROFILES WEEKEND_WARRIOR =
     \<lparr>v1_profile_type = WEEKEND_WARRIOR,
      v1_wake_time_range = ((7, 0), (8, 0)),
      v1_sleep_time_range = ((23, 0), (0, 0)),
      v1_peak_activity_hours = [9, 10, 11, 14, 15, 16],
      v1_preferred_driving_mode = ''mixed'',
      v1_avg_daily_distance_km = (20, 40),
      v1_weekend_distance_multiplier = 4.0,
      v1_preferred_soc_min = 25.0,
      v1_preferred_soc_target = 90.0,
      v1_charging_anxiety_factor = 1.0,
      v1_night_charging_probability = 0.6,
      v1_opportunity_charging_probability = 0.5,
      v1_spontaneity_factor = 0.6,
      v1_planning_factor = 0.6,
      v1_eco_consciousness = 0.4,
      v1_performance_preference = 0.8\<rparr>"
| "USER_PROFILES ECO_CONSCIOUS =
     \<lparr>v1_profile_type = ECO_CONSCIOUS,
      v1_wake_time_range = ((6, 30), (7, 30)),
      v1_sleep_time_range = ((22, 0), (23, 0)),
      v1_peak_activity_hours = [8, 9, 10, 11, 14, 15, 16, 17],
      v1_preferred_driving_mode = ''eco'',
      v1_avg_daily_distance_km = (40, 80),
      v1_weekend_distance_multiplier = 1.1,
      v1_preferred_soc_min = 20.0,
      v1_preferred_soc_target = 80.0,
      v1_charging_anxiety_factor = 0.9,
      v1_night_charging_probability = 0.9,
      v1_opportunity_charging_probability = 0.4,
      v1_spontaneity_factor = 0.4,
      v1_planning_factor = 0.8,
      v1_eco_consciousness = 0.95,
      v1_performance_preference = 0.1\<rparr>"
| "USER_PROFILES PERFORMANCE_ENTHUSIAST =
     \<lparr>v1_profile_type = PERFORMANCE_ENTHUSIAST,
      v1_wake_time_range = ((7, 0), (8, 30)),
      v1_sleep_time_range = ((23, 0), (1, 0)),
      v1_peak_activity_hours = [9, 10, 17, 18, 19, 20],
      v1_preferred_driving_mode = ''aggressive'',
      v1_avg_daily_distance_km = (50, 120),
      v1_weekend_distance_multiplier = 1.5,
      v1_preferred_soc_min = 30.0,
      v1_preferred_soc_target = 90.0,
      v1_charging_anxiety_factor = 1.0,
      v1_night_charging_probability = 0.7,
      v1_opportunity_charging_probability = 0.6,
      v1_spontaneity_factor = 0.7,
      v1_planning_factor = 0.5,
      v1_eco_consciousness = 0.2,
      v1_performance_preference = 0.95\<rparr>"

record UserBehaviorSimulator_v1 =
  v1_profile :: UserProfile_v1
  v1_behavior :: UserBehavior_v1

text \<open>\<^verbatim>\<open>should_charge\<close> of the first generation.\<close>

definition should_charge_v1 ::
  "UserBehaviorSimulator_v1 \<Rightarrow> rng \<Rightarrow> real \<Rightarrow> int \<Rightarrow> (bool \<times> real) \<times> rng" where
  "should_charge_v1 s g current_soc_v hour =
     (let threshold = v1_preferred_soc_min (v1_behavior s) * v1_charging_anxiety_factor (v1_behavior s)
      in if current_soc_v < threshold then ((True, v1_preferred_soc_target (v1_behavior s)), g)
         else if current_soc_v < v1_preferred_soc_target (v1_behavior s) * 0.8 then
           (if 22 \<le> hour \<or> hour \<le> 6 then
              (case random_random g of
                 (u, g1) \<Rightarrow>
                   if u < v1_night_charging_probability (v1_behavior s)
                   then ((True, v1_preferred_soc_target (v1_behavior s)), g1)
                   else ((False, 0), g1))
            else
              (case random_random g of
                 (u, g1) \<Rightarrow>
                   if u < v1_opportunity_charging_probability (v1_behavior s)
                   then (case random_uniform (current_soc_v + 20)
                                 (v1_preferred_soc_target (v1_behavior s)) g1 of
                           (target, g2) \<Rightarrow> ((True, min target 100), g2))
                   else ((False, 0), g1)))
         else ((False, 0), g))"

section \<open>simulation/simulator.py\<close>

text \<open>
  What a run reads from its environment: the two global random generators and the wall
  clock. \<^verbatim>\<open>random.seed(s)\<close> and \<^verbatim>\<open>numpy.random.seed(s)\<close> replace a generator by
  the stream of the seed, which the library determines; the model takes the two functions
  from seeds to streams as arguments.
\<close>

record world =
  py_random :: rng
  np_random :: rng
  wall_clock :: clock

text \<open>\<^verbatim>\<open>if seed: np.random.seed(seed); random.seed(seed)\<close>: no seed and seed 0 are falsy.\<close>

definition seed_generators :: "(int \<Rightarrow> rng) \<Rightarrow> (int \<Rightarrow> rng) \<Rightarrow> int option \<Rightarrow> world \<Rightarrow> world" where
  "seed_generators py_seeded np_seeded seed w =
     (case seed of
        None \<Rightarrow> w
      | Some s \<Rightarrow> if s \<noteq> 0 then w\<lparr>py_random := py_seeded s, np_random := np_seeded s\<rparr> else w)"

text \<open>The hour of a datetime, and \<^verbatim>\<open>replace(hour=0, minute=0, second=0, microsecond=0)\<close>.\<close>

definition datetime_hour :: "datetime \<Rightarrow> int" where
  "datetime_hour t = (t div 3600000000) mod 24"

definition replace_midnight :: "datetime \<Rightarrow> datetime" where
  "replace_midnight t = t - t mod 86400000000"

definition timedelta_days :: "int \<Rightarrow> int" where
  "timedelta_days n = n * 86400000000"

record EVBatterySimulator =
  sim_vehicle_id :: string
  sim_specs :: BatterySpecs
  battery :: BatteryModel
  user_profile :: UserProfile_v1
  user_behavior :: UserBehaviorSimulator_v1
  charging_gen :: ChargingPatternGenerator
  current_time :: datetime

text \<open>
  \<^verbatim>\<open>EVBatterySimulator.__init__\<close>. The constructors of the behaviour simulator, the
  driving generator and the anomaly generator each run the seeding, as the constructor
  itself does last. The two empty result lists of the object are never read.
  \<^verbatim>\<open>random.choice\<close> is the library's (it draws bits, not a variate): the model
  takes it as the argument \<open>py_choice\<close>, a function of the list and the generator,
  as it takes the seeding.
\<close>

definition EVBatterySimulator_init ::
  "(UserProfile_v1 list \<Rightarrow> rng \<Rightarrow> UserProfile_v1 \<times> rng)
     \<Rightarrow> (int \<Rightarrow> rng) \<Rightarrow> (int \<Rightarrow> rng) \<Rightarrow> string \<Rightarrow> UserProfile_v1 option \<Rightarrow> int option \<Rightarrow> world
     \<Rightarrow> py_error + (EVBatterySimulator \<times> world)" where
  "EVBatterySimulator_init py_choice py_seeded np_seeded vid profile_opt seed w =
     (case VEHICLE_SPECS vid of
        None \<Rightarrow> Inl ValueError
      | Some sp \<Rightarrow>
          (case (case profile_opt of
                   None \<Rightarrow>
                     (case py_choice [NIGHT_OWL, EARLY_BIRD, SPONTANEOUS, CAUTIOUS, COMMUTER,
                                          WEEKEND_WARRIOR, ECO_CONSCIOUS, PERFORMANCE_ENTHUSIAST]
                             (py_random w) of
                        (p, g1) \<Rightarrow> (p, w\<lparr>py_random := g1\<rparr>))
                 | Some p \<Rightarrow> (p, w)) of
             (p, w1) \<Rightarrow>
               (let w2 = seed_generators py_seeded np_seeded seed w1;
                    w3 = seed_generators py_seeded np_seeded seed w2;
                    w4 = seed_generators py_seeded np_seeded seed w3
                in (case now (wall_clock w4) of
                      (t, clk1) \<Rightarrow>
                        Inr (\<lparr>sim_vehicle_id = vid, sim_specs = sp,
                              battery = BatteryModel_init sp 80.0 25.0 100.0,
                              user_profile = p,
                              user_behavior = \<lparr>v1_profile = p, v1_behavior = USER_PROFILES p\<rparr>,
                              charging_gen = ChargingPatternGenerator_init (nominal_voltage sp),
                              current_time = t\<rparr>,
                             seed_generators py_seeded np_seeded seed (w4\<lparr>wall_clock := clk1\<rparr>))))))"

text \<open>
  The charging check of \<^verbatim>\<open>_generate_daily_schedule\<close>:
  \<^verbatim>\<open>self.user_behavior.should_charge(self.battery.soc, datetime.now().hour)\<close>.
\<close>

definition schedule_charging_check ::
  "EVBatterySimulator \<Rightarrow> world \<Rightarrow> (bool \<times> real) \<times> world" where
  "schedule_charging_check sim w =
     (case now (wall_clock w) of
        (t, clk1) \<Rightarrow>
          (case should_charge_v1 (user_behavior sim) (py_random w) (soc (battery sim)) (datetime_hour t) of
             (r, g1) \<Rightarrow> (r, w\<lparr>py_random := g1, wall_clock := clk1\<rparr>)))"

text \<open>
  The start of \<^verbatim>\<open>run_simulation\<close>: the simulator, and the start date read from the
  wall clock. The date of day \<open>d\<close> is the start date plus \<open>d\<close> days, and the records of
  that day are stamped from it on, one step \<open>dt\<close> apart.
\<close>

definition run_simulation_start ::
  "(UserProfile_v1 list \<Rightarrow> rng \<Rightarrow> UserProfile_v1 \<times> rng)
     \<Rightarrow> (int \<Rightarrow> rng) \<Rightarrow> (int \<Rightarrow> rng) \<Rightarrow> string \<Rightarrow> UserProfile_v1 option \<Rightarrow> int option \<Rightarrow> world
     \<Rightarrow> py_error + (EVBatterySimulator \<times> datetime \<times> world)" where
  "run_simulation_start py_choice py_seeded np_seeded vid profile_opt seed w =
     (case EVBatterySimulator_init py_choice py_seeded np_seeded vid profile_opt seed w of
        Inl e \<Rightarrow> Inl e
      | Inr (simulator, w1) \<Rightarrow>
          (case now (wall_clock w1) of
             (t, clk1) \<Rightarrow> Inr (simulator, replace_midnight t, w1\<lparr>wall_clock := clk1\<rparr>)))"

definition current_date :: "datetime \<Rightarrow> int \<Rightarrow> datetime" where
  "current_date start_date day = start_date + timedelta_days day"

section \<open>Concrete inputs\<close>

definition manager0 :: ThermalSafetyManager where
  "manager0 = ThermalSafetyManager_init ''VEH001'' None"

definition cold_battery :: BatteryModel where
  "cold_battery = BatteryModel_init VEH001 50 (-10) 100"

definition full_battery :: BatteryModel where
  "full_battery = BatteryModel_init VEH001 90 25 100"


definition stranded_user :: UserBehaviorSimulator where
  "stranded_user = (UserBehaviorSimulator_init COMMON_DRIVER)\<lparr>days_since_last_charge := 4\<rparr>"

definition short_telemetry :: "string \<rightharpoonup> real list" where
  "short_telemetry = [''temperature'' \<mapsto> [25, 26, 27], ''voltage'' \<mapsto> [350, 351, 352]]"

text \<open>
  Two environments with the same generators, read a day and some hours apart:
  2023-11-14 23:13:20 and 2023-11-15 12:13:20.
\<close>

definition world_night :: "rng \<Rightarrow> rng \<Rightarrow> world" where
  "world_night g1 g2 = \<lparr>py_random = g1, np_random = g2, wall_clock = sconst 1700003600000000\<rparr>"

definition world_noon :: "rng \<Rightarrow> rng \<Rightarrow> world" where
  "world_noon g1 g2 = \<lparr>py_random = g1, np_random = g2, wall_clock = sconst 1700050400000000\<rparr>"

text \<open>A cautious driver's simulator with the battery at 75.5 percent.\<close>

definition cautious_simulator :: EVBatterySimulator where
  "cautious_simulator =
     \<lparr>sim_vehicle_id = ''VEH001'', sim_specs = VEH001,
      battery = (BatteryModel_init VEH001 80.0 25.0 100.0)\<lparr>soc := 75.5\<rparr>,
      user_profile = CAUTIOUS,
      user_behavior = \<lparr>v1_profile = CAUTIOUS, v1_behavior = USER_PROFILES CAUTIOUS\<rparr>,
      charging_gen = ChargingPatternGenerator_init 350,
      current_time = 0\<rparr>"

section \<open>Thermal safety: hysteresis and the power limit\<close>

lemma log_event_fields [simp]:
  "thresholds (log_event m e t ts msg) = thresholds m"
  "current_status (log_event m e t ts msg) = current_status m"
  "shutdown_active (log_event m e t ts msg) = shutdown_active m"
  "warning_count (log_event m e t ts msg) = warning_count m"
  "tsm_vehicle_id (log_event m e t ts msg) = tsm_vehicle_id m"
  by (simp_all add: log_event_def Let_def)

lemma determine_status_limit:
  "determine_status m result prev t ts = (r, m') \<Longrightarrow> res_power_limit result = 1 \<Longrightarrow>
   res_power_limit r = status_power_limit (res_status r)"
  by (auto simp: determine_status_def Let_def split: if_splits)

lemma determine_status_thresholds:
  "determine_status m result prev t ts = (r, m') \<Longrightarrow> thresholds m' = thresholds m"
  by (auto simp: determine_status_def Let_def split: if_splits)

lemma determine_status_shutdown:
  "determine_status m result prev t ts = (r, m') \<Longrightarrow> shutdown_temp (thresholds m) \<le> t \<Longrightarrow>
   shutdown_active m'"
  by (auto simp: determine_status_def Let_def split: if_splits)

lemma determine_status_below_warning:
  "determine_status m result prev t ts = (r, m') \<Longrightarrow>
   t < warning_temp (thresholds m) \<Longrightarrow> warning_temp (thresholds m) \<le> critical_temp (thresholds m) \<Longrightarrow>
   critical_temp (thresholds m) \<le> shutdown_temp (thresholds m) \<Longrightarrow>
   res_status r = NORMAL \<and> current_status m' = NORMAL \<and> shutdown_active m' = shutdown_active m"
  by (auto simp: determine_status_def Let_def split: if_splits)

lemma check_temperature_limit:
  "check_temperature m t ts clk = (r, m', clk') \<Longrightarrow>
   res_power_limit r = status_power_limit (res_status r)"
  by (auto simp: check_temperature_def Let_def split: prod.splits option.splits if_splits
      dest!: determine_status_limit)

lemma check_temperature_thresholds:
  "check_temperature m t ts clk = (r, m', clk') \<Longrightarrow> thresholds m' = thresholds m"
  by (auto simp: check_temperature_def Let_def split: prod.splits option.splits if_splits
      dest!: determine_status_thresholds)


lemma check_temperature_sets_shutdown:
  "check_temperature m t ts clk = (r, m', clk') \<Longrightarrow> thresholds m = default_thresholds \<Longrightarrow>
   60 \<le> t \<Longrightarrow> shutdown_active m'"
  by (auto simp: check_temperature_def Let_def default_thresholds_def
      split: prod.splits option.splits if_splits dest!: determine_status_shutdown)

lemma check_temperature_holds_shutdown:
  "check_temperature m t ts clk = (r, m', clk') \<Longrightarrow> thresholds m = default_thresholds \<Longrightarrow>
   shutdown_active m \<Longrightarrow> 45 < t \<Longrightarrow>
   res_status r = SHUTDOWN \<and> res_power_limit r = 0 \<and> m' = m"
  by (auto simp: check_temperature_def Let_def default_thresholds_def
      split: prod.splits option.splits if_splits)

lemma check_temperature_clears_shutdown:
  "check_temperature m t ts clk = (r, m', clk') \<Longrightarrow> thresholds m = default_thresholds \<Longrightarrow>
   shutdown_active m \<Longrightarrow> \<not> shutdown_active m' \<Longrightarrow>
   t \<le> 45 \<and> res_status r = NORMAL \<and> current_status m' = NORMAL"
  by (auto simp: check_temperature_def Let_def default_thresholds_def
      split: prod.splits option.splits if_splits dest!: determine_status_below_warning)

lemma check_all_holds_shutdown:
  "check_all m clk ts = (rs, m', clk') \<Longrightarrow> thresholds m = default_thresholds \<Longrightarrow>
   shutdown_active m \<Longrightarrow> \<forall>t \<in> set ts. 45 < t \<Longrightarrow>
   (\<forall>r \<in> set rs. res_status r = SHUTDOWN \<and> res_power_limit r = 0) \<and> m' = m"
proof (induction ts arbitrary: m clk rs m' clk')
  case Nil
  then show ?case by simp
next
  case (Cons t ts)
  obtain r m1 clk1 where c: "check_temperature m t None clk = (r, m1, clk1)"
    by (cases "check_temperature m t None clk") auto
  obtain rs2 m2 clk2 where a: "check_all m1 clk1 ts = (rs2, m2, clk2)"
    by (cases "check_all m1 clk1 ts") auto
  from Cons.prems c have h: "res_status r = SHUTDOWN \<and> res_power_limit r = 0 \<and> m1 = m"
    using check_temperature_holds_shutdown[OF c] by simp
  from Cons.prems(1) c a have e: "rs = r # rs2" "m' = m2" by simp_all
  from Cons.IH[OF a] h Cons.prems have "(\<forall>r \<in> set rs2. res_status r = SHUTDOWN \<and> res_power_limit r = 0) \<and> m2 = m1"
    by simp
  with h e show ?case by simp
qed

text \<open>
  C2. With the default thresholds: a check that observes a temperature of at least 60
  degrees sets the shutdown flag; while the flag is set, every check of a temperature
  above 45 degrees returns status Shutdown with power limit 0.0 and leaves the flag set;
  and a check that clears the flag observed a temperature of at most 45 degrees and
  moved the status to Normal.
\<close>

theorem thermal_shutdown_hysteresis:
  assumes "thresholds m = default_thresholds"
  shows "(60 \<le> t0 \<longrightarrow> shutdown_active (fst (snd (check_temperature m t0 ts0 clk))))
    \<and> (shutdown_active m \<and> (\<forall>t \<in> set ts. 45 < t) \<longrightarrow>
          (\<forall>r \<in> set (fst (check_all m clk ts)). res_status r = SHUTDOWN \<and> res_power_limit r = 0.0)
          \<and> shutdown_active (fst (snd (check_all m clk ts))))
    \<and> (shutdown_active m \<and> \<not> shutdown_active (fst (snd (check_temperature m t0 ts0 clk))) \<longrightarrow>
          t0 \<le> 45 \<and> res_status (fst (check_temperature m t0 ts0 clk)) = NORMAL
          \<and> current_status (fst (snd (check_temperature m t0 ts0 clk))) = NORMAL)"
proof -
  obtain r m1 clk1 where c: "check_temperature m t0 ts0 clk = (r, m1, clk1)"
    by (cases "check_temperature m t0 ts0 clk") auto
  obtain rs m2 clk2 where a: "check_all m clk ts = (rs, m2, clk2)"
    by (cases "check_all m clk ts") auto
  have p1: "60 \<le> t0 \<longrightarrow> shutdown_active m1"
    using check_temperature_sets_shutdown[OF c assms] by simp
  have p2: "shutdown_active m \<and> (\<forall>t \<in> set ts. 45 < t) \<longrightarrow>
      (\<forall>r \<in> set rs. res_status r = SHUTDOWN \<and> res_power_limit r = 0) \<and> shutdown_active m2"
    using check_all_holds_shutdown[OF a assms] by auto
  have p3: "shutdown_active m \<and> \<not> shutdown_active m1 \<longrightarrow>
      t0 \<le> 45 \<and> res_status r = NORMAL \<and> current_status m1 = NORMAL"
    using check_temperature_clears_shutdown[OF c assms] by auto
  from p1 p2 p3 show ?thesis by (simp add: c a)
qed


theorem thermal_shutdown_hysteresis_witness:
  "thresholds manager0 = default_thresholds
   \<and> shutdown_active (fst (snd (check_temperature manager0 61 None (sconst 0))))
   \<and> map res_status (fst (check_all manager0 (sconst 0) [61, 58, 50, 46])) = [SHUTDOWN, SHUTDOWN, SHUTDOWN, SHUTDOWN]
   \<and> map res_power_limit (fst (check_all manager0 (sconst 0) [61, 58, 50, 46])) = [0, 0, 0, 0]
   \<and> map res_status (fst (check_all manager0 (sconst 0) [61, 58, 45, 46])) = [SHUTDOWN, SHUTDOWN, NORMAL, NORMAL]"
  using thermal_shutdown_hysteresis[of manager0 61 None "sconst 0" "[]"]
  by (simp add: manager0_def ThermalSafetyManager_init_def check_temperature_def determine_status_def
      log_event_def default_thresholds_def now_def Let_def)

text \<open>
  C5. The power limit a check returns is the step function of the status it returns:
  Normal 1.0, Warning 0.7, Critical 0.3, Shutdown 0.0, which does not increase as the
  status escalates.
\<close>

theorem power_limit_step_function:
  "res_power_limit (fst (check_temperature m t ts clk)) =
     status_power_limit (res_status (fst (check_temperature m t ts clk)))
   \<and> status_power_limit NORMAL = 1.0 \<and> status_power_limit WARNING = 0.7
   \<and> status_power_limit CRITICAL = 0.3 \<and> status_power_limit SHUTDOWN = 0.0
   \<and> status_power_limit SHUTDOWN \<le> status_power_limit CRITICAL
   \<and> status_power_limit CRITICAL \<le> status_power_limit WARNING
   \<and> status_power_limit WARNING \<le> status_power_limit NORMAL"
proof -
  obtain r m1 clk1 where c: "check_temperature m t ts clk = (r, m1, clk1)"
    by (cases "check_temperature m t ts clk") auto
  from check_temperature_limit[OF c] show ?thesis by (simp add: c)
qed


section \<open>Battery model: state of charge, current limit, cold capacity\<close>

lemma update_soc_range: "0 \<le> soc (update_soc b cur dt) \<and> soc (update_soc b cur dt) \<le> 100"
  by (simp add: update_soc_def Let_def np_clip_def)

lemma update_soc_frame [simp]:
  "specs (update_soc b cur dt) = specs b"
  "soh (update_soc b cur dt) = soh b"
  "effective_capacity_kwh (update_soc b cur dt) = effective_capacity_kwh b"
  "temperature (update_soc b cur dt) = temperature b"
  "current (update_soc b cur dt) = current b"
  "voltage (update_soc b cur dt) = voltage b"
  by (simp_all add: update_soc_def Let_def)

lemma update_thermal_frame [simp]:
  "specs (fst (update_thermal b clk dt p)) = specs b"
  "soh (fst (update_thermal b clk dt p)) = soh b"
  "soc (fst (update_thermal b clk dt p)) = soc b"
  "current (fst (update_thermal b clk dt p)) = current b"
  "voltage (fst (update_thermal b clk dt p)) = voltage b"
  by (simp_all add: update_thermal_def Let_def split_beta)

lemma update_thermal_capacity:
  "effective_capacity_kwh (fst (update_thermal b clk dt p)) =
     (if temperature (fst (update_thermal b clk dt p)) < 0
      then nominal_capacity_kwh (specs b) * (soh b / 100) * 0.8
      else effective_capacity_kwh b)"
  by (simp add: update_thermal_def Let_def split_beta)

lemma apply_current_soc:
  "0 \<le> soc (fst (snd (apply_current b clk r dt))) \<and> soc (fst (snd (apply_current b clk r dt))) \<le> 100"
  by (simp add: apply_current_def Let_def split_beta update_soc_range)

lemma apply_current_frame [simp]:
  "specs (fst (snd (apply_current b clk r dt))) = specs b"
  "soh (fst (snd (apply_current b clk r dt))) = soh b"
  by (simp_all add: apply_current_def Let_def split_beta)

lemma apply_current_capacity:
  "effective_capacity_kwh (fst (snd (apply_current b clk r dt))) =
     (if temperature (fst (snd (apply_current b clk r dt))) < 0
      then nominal_capacity_kwh (specs b) * (soh b / 100) * 0.8
      else effective_capacity_kwh b)"
  by (simp add: apply_current_def Let_def split_beta update_thermal_capacity)

lemma apply_current_actual:
  "fst (fst (apply_current b clk r dt)) =
     limit_current (specs b) (soc b) (temperature b) (res_power_limit (fst (check_temperature (thermal_safety b) (temperature b) None clk))) r"
  by (simp add: apply_current_def Let_def split_beta)


lemma apply_currents_soc:
  "0 \<le> soc b \<and> soc b \<le> 100 \<Longrightarrow>
   0 \<le> soc (fst (apply_currents b clk calls)) \<and> soc (fst (apply_currents b clk calls)) \<le> 100"
proof (induction calls arbitrary: b clk)
  case Nil
  then show ?case by simp
next
  case (Cons c calls)
  obtain r dt where c: "c = (r, dt)" by (cases c)
  obtain out b1 clk1 where a: "apply_current b clk r dt = (out, b1, clk1)"
    by (cases "apply_current b clk r dt") auto
  have "0 \<le> soc b1 \<and> soc b1 \<le> 100" using apply_current_soc[of b clk r dt] a by simp
  from Cons.IH[OF this] show ?case by (simp add: c a)
qed


lemma apply_current_soc_formula:
  "soc (fst (snd (apply_current b clk r dt))) =
     np_clip (soc b + (fst (snd (fst (apply_current b clk r dt))) * fst (fst (apply_current b clk r dt)) * dt / 3600
                        / (effective_capacity_kwh b * 1000)) * 100) 0 100"
  by (simp add: apply_current_def update_soc_def calculate_voltage_under_load_def Let_def split_beta mult_ac)

text \<open>
  C1. From an initial state of charge in [0, 100], after every call of a finite
  sequence of \<^verbatim>\<open>apply_current\<close> calls with dt > 0 the stored state of charge is
  in [0, 100]; each call adds power * dt / 3600 divided by the effective capacity (in Wh),
  as a percentage, and clamps the sum to [0, 100]. The battery is one with a positive
  capacity, state of health and thermal mass, where the real arithmetic is the program's.
\<close>

theorem soc_stays_in_range:
  assumes "0 \<le> initial_soc" and "initial_soc \<le> 100"
    and "0 < nominal_capacity_kwh sp" and "0 < soh_v" and "0 < thermal_mass sp"
    and "\<forall>c \<in> set calls. 0 < snd c"
    and "k \<le> length calls"
  shows "0 \<le> soc (fst (apply_currents (BatteryModel_init sp initial_soc initial_temp soh_v) clk (take k calls)))
       \<and> soc (fst (apply_currents (BatteryModel_init sp initial_soc initial_temp soh_v) clk (take k calls))) \<le> 100
       \<and> soc (fst (snd (apply_current b clk' r dt))) =
           np_clip (soc b + (fst (snd (fst (apply_current b clk' r dt))) * fst (fst (apply_current b clk' r dt)) * dt / 3600
                        / (effective_capacity_kwh b * 1000)) * 100) 0 100"
proof -
  have "0 \<le> soc (BatteryModel_init sp initial_soc initial_temp soh_v)
      \<and> soc (BatteryModel_init sp initial_soc initial_temp soh_v) \<le> 100"
    using assms(1,2) by (simp add: BatteryModel_init_def)
  then have "0 \<le> soc (fst (apply_currents (BatteryModel_init sp initial_soc initial_temp soh_v) clk (take k calls)))
       \<and> soc (fst (apply_currents (BatteryModel_init sp initial_soc initial_temp soh_v) clk (take k calls))) \<le> 100"
    by (rule apply_currents_soc)
  then show ?thesis using apply_current_soc_formula[of b clk' r dt] by blast
qed

lemma status_power_limit_range: "0 \<le> status_power_limit s \<and> status_power_limit s \<le> 1"
  by (cases s) simp_all

lemma check_temperature_limit_range:
  "0 \<le> res_power_limit (fst (check_temperature m t ts clk))
   \<and> res_power_limit (fst (check_temperature m t ts clk)) \<le> 1"
proof -
  obtain r m1 clk1 where c: "check_temperature m t ts clk = (r, m1, clk1)"
    by (cases "check_temperature m t ts clk") auto
  from check_temperature_limit[OF c] status_power_limit_range[of "res_status r"] show ?thesis
    by (simp add: c)
qed

lemma spec_temp_derate_range: "0 < spec_temp_derate T \<and> spec_temp_derate T \<le> 1"
  by (simp add: spec_temp_derate_def max_def)

lemma spec_taper_range: "0 < spec_taper s"
  by (simp add: spec_taper_def max_def)

lemma limit_current_spec:
  "limit_current sp s T l r =
     (let pl = min (spec_temp_derate T) l;
          mc = (if r > 0 then max_charge_current sp * pl * (if s > 80 then spec_taper s else 1)
                else max_discharge_current sp * pl)
      in if r > 0 then min r mc else max r mc)"
  by (cases "80 < s")
    (simp_all add: limit_current_def spec_temp_derate_def spec_taper_def Let_def
      split del: if_split cong: if_cong)

lemma limit_current_bound:
  assumes "0 \<le> max_charge_current sp" and "0 \<le> l"
  shows "\<bar>limit_current sp s T l r\<bar> \<le>
     (if r > 0 then min l (spec_temp_derate T) * max_charge_current sp * (if s > 80 then spec_taper s else 1)
      else min l (spec_temp_derate T) * \<bar>max_discharge_current sp\<bar>)"
proof -
  define pl where "pl = min l (spec_temp_derate T)"
  have pl0: "0 \<le> pl" using assms(2) spec_temp_derate_range[of T] by (simp add: pl_def)
  have plc: "min (spec_temp_derate T) l = pl" by (simp add: pl_def min.commute)
  show ?thesis
  proof (cases "r > 0")
    case True
    define tp where "tp = (if s > 80 then spec_taper s else 1)"
    have tp0: "0 \<le> tp" using spec_taper_range[of s] by (simp add: tp_def)
    have mc0: "0 \<le> max_charge_current sp * pl * tp"
      using assms(1) pl0 tp0 by simp
    have "limit_current sp s T l r = min r (max_charge_current sp * pl * tp)"
      using True by (simp add: limit_current_spec plc tp_def Let_def)
    moreover have "\<bar>min r (max_charge_current sp * pl * tp)\<bar> \<le> max_charge_current sp * pl * tp"
      using True mc0 by (simp add: min_def)
    ultimately show ?thesis using True by (simp add: pl_def tp_def mult.commute mult.left_commute)
  next
    case False
    have lc: "limit_current sp s T l r = max r (max_discharge_current sp * pl)"
      using False by (simp add: limit_current_spec plc Let_def)
    have ab: "\<bar>max_discharge_current sp * pl\<bar> = pl * \<bar>max_discharge_current sp\<bar>"
      using pl0 by (simp add: abs_mult mult.commute)
    have "\<bar>max r (max_discharge_current sp * pl)\<bar> \<le> \<bar>max_discharge_current sp * pl\<bar>"
      using False by (simp add: max_def abs_if)
    with lc ab show ?thesis using False by (simp add: pl_def)
  qed
qed

text \<open>
  C6. The magnitude of the current \<^verbatim>\<open>apply_current\<close> returns is at most the limit
  times the maximal charge current when charging, scaled by the taper above 80 percent,
  and the limit times the magnitude of the maximal discharge current otherwise; the limit
  is the smaller of the thermal power limit and the temperature derating, and the taper
  is 10 percent at 100 percent. The maximal charge current of the specifications is not
  negative.
\<close>

theorem actual_current_bounded:
  assumes "0 \<le> max_charge_current (specs b)"
  shows "\<bar>fst (fst (apply_current b clk requested_current dt))\<bar> \<le> spec_current_bound b clk requested_current
     \<and> spec_taper 100 = 0.1"
proof -
  have "\<bar>fst (fst (apply_current b clk requested_current dt))\<bar> \<le> spec_current_bound b clk requested_current"
    unfolding apply_current_actual spec_current_bound_def spec_limit_def
    using limit_current_bound[OF assms, of "res_power_limit (fst (check_temperature (thermal_safety b) (temperature b) None clk))"
        "soc b" "temperature b" requested_current]
      check_temperature_limit_range[of "thermal_safety b" "temperature b" None clk]
    by simp
  then show ?thesis by (simp add: spec_taper_def)
qed

lemma apply_currents_cold:
  "effective_capacity_kwh b = nominal_capacity_kwh (specs b) * (soh b / 100) * 0.8 \<Longrightarrow>
   effective_capacity_kwh (fst (apply_currents b clk calls)) = nominal_capacity_kwh (specs b) * (soh b / 100) * 0.8
   \<and> specs (fst (apply_currents b clk calls)) = specs b \<and> soh (fst (apply_currents b clk calls)) = soh b"
proof (induction calls arbitrary: b clk)
  case Nil
  then show ?case by simp
next
  case (Cons c calls)
  obtain r dt where c: "c = (r, dt)" by (cases c)
  obtain out b1 clk1 where a: "apply_current b clk r dt = (out, b1, clk1)"
    by (cases "apply_current b clk r dt") auto
  have f: "specs b1 = specs b" "soh b1 = soh b"
    using apply_current_frame[of b clk r dt] a by simp_all
  have "effective_capacity_kwh b1 = nominal_capacity_kwh (specs b) * (soh b / 100) * 0.8"
    using apply_current_capacity[of b clk r dt] a Cons.prems by (simp split: if_splits)
  then have "effective_capacity_kwh b1 = nominal_capacity_kwh (specs b1) * (soh b1 / 100) * 0.8"
    using f by simp
  from Cons.IH[OF this, of clk1] f show ?case by (simp add: c a)
qed

text \<open>
  C9. When a call of \<^verbatim>\<open>apply_current\<close> leaves the temperature below 0 degrees,
  the effective capacity is the nominal capacity times SoH/100 times 0.8, and it keeps
  that value after every later sequence of calls, whatever the temperatures: it is never
  set back to the nominal capacity times SoH/100.
\<close>

theorem cold_capacity_persists:
  assumes "temperature (fst (snd (apply_current b clk requested_current dt))) < 0"
  shows "effective_capacity_kwh (fst (snd (apply_current b clk requested_current dt)))
           = nominal_capacity_kwh (specs b) * (soh b / 100) * 0.8
     \<and> effective_capacity_kwh (fst (apply_currents (fst (snd (apply_current b clk requested_current dt)))
                                      (snd (snd (apply_current b clk requested_current dt))) calls))
         = nominal_capacity_kwh (specs b) * (soh b / 100) * 0.8
     \<and> (0 < nominal_capacity_kwh (specs b) \<and> 0 < soh b \<longrightarrow>
          effective_capacity_kwh (fst (apply_currents (fst (snd (apply_current b clk requested_current dt)))
                                      (snd (snd (apply_current b clk requested_current dt))) calls))
            < nominal_capacity_kwh (specs b) * (soh b / 100))"
proof -
  define b1 where "b1 = fst (snd (apply_current b clk requested_current dt))"
  define clk1 where "clk1 = snd (snd (apply_current b clk requested_current dt))"
  have f: "specs b1 = specs b" "soh b1 = soh b"
    by (simp_all add: b1_def)
  have c1: "effective_capacity_kwh b1 = nominal_capacity_kwh (specs b) * (soh b / 100) * 0.8"
    using apply_current_capacity[of b clk requested_current dt] assms by (simp add: b1_def)
  then have "effective_capacity_kwh b1 = nominal_capacity_kwh (specs b1) * (soh b1 / 100) * 0.8"
    using f by simp
  from apply_currents_cold[OF this, of clk1 calls] f
  have c2: "effective_capacity_kwh (fst (apply_currents b1 clk1 calls))
         = nominal_capacity_kwh (specs b) * (soh b / 100) * 0.8" by simp
  have c3: "0 < nominal_capacity_kwh (specs b) \<and> 0 < soh b \<longrightarrow>
      nominal_capacity_kwh (specs b) * (soh b / 100) * 0.8 < nominal_capacity_kwh (specs b) * (soh b / 100)"
  proof
    assume h: "0 < nominal_capacity_kwh (specs b) \<and> 0 < soh b"
    define x where "x = nominal_capacity_kwh (specs b) * (soh b / 100)"
    have "0 < x" using h by (simp add: x_def)
    then have "x * 0.8 < x" by simp
    then show "nominal_capacity_kwh (specs b) * (soh b / 100) * 0.8 < nominal_capacity_kwh (specs b) * (soh b / 100)"
      by (simp only: x_def)
  qed
  have c3': "0 < nominal_capacity_kwh (specs b) \<and> 0 < soh b \<longrightarrow>
      effective_capacity_kwh (fst (apply_currents b1 clk1 calls))
        < nominal_capacity_kwh (specs b) * (soh b / 100)"
    using c3 by (simp only: c2)
  show ?thesis unfolding b1_def[symmetric] clk1_def[symmetric] by (intro conjI c1 c2 c3')
qed

lemma update_thermal_temperature:
  "temperature (fst (update_thermal b clk dt p)) =
     temperature b +
       ((if p > 0 then \<bar>current b\<bar> ^ 2 * internal_resistance (specs b) + \<bar>p\<bar> * 0.05
         else \<bar>current b\<bar> ^ 2 * internal_resistance (specs b))
        - 0.001 * (temperature b - ambient_temp b)) * dt / (thermal_mass (specs b) * 1000)"
  by (simp add: update_thermal_def Let_def split_beta)

lemma update_soc_ambient [simp]: "ambient_temp (update_soc b cur dt) = ambient_temp b"
  by (simp add: update_soc_def Let_def)

lemma apply_current_temperature:
  "temperature (fst (snd (apply_current b clk r dt))) =
     temperature b +
       ((if fst (snd (fst (apply_current b clk r dt))) * fst (fst (apply_current b clk r dt)) > 0
         then \<bar>fst (fst (apply_current b clk r dt))\<bar> ^ 2 * internal_resistance (specs b)
              + \<bar>fst (snd (fst (apply_current b clk r dt))) * fst (fst (apply_current b clk r dt))\<bar> * 0.05
         else \<bar>fst (fst (apply_current b clk r dt))\<bar> ^ 2 * internal_resistance (specs b))
        - 0.001 * (temperature b - ambient_temp b)) * dt / (thermal_mass (specs b) * 1000)"
  by (simp add: apply_current_def Let_def split_beta update_thermal_temperature
      split del: if_split cong: if_cong)

lemma limit_current_zero:
  assumes "max_discharge_current sp \<le> 0" and "0 \<le> l"
  shows "limit_current sp s T l 0 = 0"
proof -
  have "0 \<le> min (spec_temp_derate T) l"
    using assms(2) spec_temp_derate_range[of T] by simp
  then have "max_discharge_current sp * min (spec_temp_derate T) l \<le> 0"
    using assms(1) by (simp add: mult_nonpos_nonneg)
  then show ?thesis by (simp add: limit_current_spec Let_def)
qed

lemma cold_battery_fields:
  "specs cold_battery = VEH001" "soh cold_battery = 100" "temperature cold_battery = -10"
  "ambient_temp cold_battery = 20" "soc cold_battery = 50"
  by (simp_all add: cold_battery_def BatteryModel_init_def)

lemma VEH001_fields:
  "max_discharge_current VEH001 = -250" "max_charge_current VEH001 = 200"
  "thermal_mass VEH001 = 400" "internal_resistance VEH001 = 0.05"
  "nominal_capacity_kwh VEH001 = 82"
  by (simp_all add: VEH001_def)

lemma cold_battery_step_current:
  "fst (fst (apply_current cold_battery (sconst 0) 0 1)) = 0"
  unfolding apply_current_actual
  by (rule limit_current_zero)
     (simp_all add: cold_battery_fields VEH001_fields check_temperature_limit_range)

lemma cold_battery_step_temperature:
  "temperature (fst (snd (apply_current cold_battery (sconst 0) 0 1))) = -10 + 3 / 40000000"
  unfolding apply_current_temperature cold_battery_step_current
  by (simp add: cold_battery_fields VEH001_fields)

theorem cold_capacity_persists_witness:
  "temperature (fst (snd (apply_current cold_battery (sconst 0) 0 1))) < 0
   \<and> effective_capacity_kwh (fst (snd (apply_current cold_battery (sconst 0) 0 1))) = 65.6
   \<and> effective_capacity_kwh (fst (apply_currents (fst (snd (apply_current cold_battery (sconst 0) 0 1)))
          (snd (snd (apply_current cold_battery (sconst 0) 0 1))) [(100, 1), (0, 1)])) = 65.6"
proof -
  have t: "temperature (fst (snd (apply_current cold_battery (sconst 0) 0 1))) < 0"
    by (simp add: cold_battery_step_temperature)
  have n: "nominal_capacity_kwh (specs cold_battery) * (soh cold_battery / 100) * 0.8 = 65.6"
    by (simp add: cold_battery_fields VEH001_fields)
  note r = cold_capacity_persists[OF t, of "[(100, 1), (0, 1)]", unfolded n]
  show ?thesis using t r by blast
qed

theorem actual_current_bounded_witness:
  "0 \<le> max_charge_current (specs full_battery)
   \<and> \<bar>fst (fst (apply_current full_battery (sconst 0) 500 1))\<bar> \<le> spec_current_bound full_battery (sconst 0) 500
   \<and> spec_current_bound full_battery (sconst 0) 500 = 100"
proof -
  have h: "0 \<le> max_charge_current (specs full_battery)"
    by (simp add: full_battery_def BatteryModel_init_def VEH001_def)
  have e: "spec_current_bound full_battery (sconst 0) 500 = 100"
    by (simp add: spec_current_bound_def spec_limit_def spec_temp_derate_def spec_taper_def
        full_battery_def BatteryModel_init_def VEH001_def ThermalSafetyManager_init_def
        check_temperature_def determine_status_def default_thresholds_def now_def Let_def)
  show ?thesis using actual_current_bounded[OF h, of "sconst 0" 500 1] h e by blast
qed

theorem soc_stays_in_range_witness:
  "(0::real) \<le> 80 \<and> (80::real) \<le> 100 \<and> 0 < nominal_capacity_kwh VEH001 \<and> (0::real) < 100
   \<and> 0 < thermal_mass VEH001 \<and> 0 < snd (10::real, 1::real) \<and> (1::nat) \<le> length [(10::real, 1::real)]
   \<and> 0 \<le> soc (fst (apply_currents (BatteryModel_init VEH001 80 25 100) (sconst 0) [(10, 1)]))
   \<and> soc (fst (apply_currents (BatteryModel_init VEH001 80 25 100) (sconst 0) [(10, 1)])) \<le> 100"
proof -
  have h: "0 < nominal_capacity_kwh VEH001" "0 < thermal_mass VEH001"
    by (simp_all add: VEH001_fields)
  have c: "\<forall>c \<in> set [(10::real, 1::real)]. 0 < snd c" by simp
  have "0 \<le> soc (fst (apply_currents (BatteryModel_init VEH001 80 25 100) (sconst 0) (take 1 [(10, 1)])))
   \<and> soc (fst (apply_currents (BatteryModel_init VEH001 80 25 100) (sconst 0) (take 1 [(10, 1)]))) \<le> 100"
    using soc_stays_in_range[of 80 VEH001 100 "[(10, 1)]" 1 25 "sconst 0", OF _ _ h(1) _ h(2) c] by simp
  then show ?thesis using h by simp
qed


section \<open>CC-CV charging profile: the completed flag and the noise\<close>

lemma np_draw_simps [simp]:
  "np_random_normal loc scale g = (loc + scale * shd g, stl g)"
  "np_random_random g = (shd g, stl g)"
  "np_random_uniform lo hi g = (lo + (hi - lo) * shd g, stl g)"
  by (simp_all add: np_random_normal_def np_random_random_def np_random_uniform_def draw_def)

lemma cc_cv_step_core:
  assumes "cc_cv_core s1 = cc_cv_core s2"
  shows "map_sum id cc_cv_core (cc_cv_step ct bv tgt cap dt mc cv i s1)
       = map_sum id cc_cv_core (cc_cv_step ct bv tgt cap dt mc cv i s2)"
  using assms
  by (simp add: cc_cv_step_def cc_cv_core_def Let_def split_beta)

lemma map_sum_id_eq_cases:
  assumes "map_sum id f x = map_sum id f y"
  shows "(\<exists>e. x = Inl e \<and> y = Inl e) \<or> (\<exists>a b. x = Inr a \<and> y = Inr b \<and> f a = f b)"
  using assms by (cases x; cases y) simp_all

lemma cc_cv_loop_core:
  "cc_cv_core s1 = cc_cv_core s2 \<Longrightarrow>
   map_sum id cc_cv_core (cc_cv_loop ct bv tgt cap dt mc cv i n s1)
     = map_sum id cc_cv_core (cc_cv_loop ct bv tgt cap dt mc cv i n s2)"
proof (induction n arbitrary: i s1 s2)
  case 0
  then show ?case by simp
next
  case (Suc n)
  from map_sum_id_eq_cases[OF cc_cv_step_core[OF Suc.prems, of ct bv tgt cap dt mc cv i]]
  show ?case
  proof
    assume "\<exists>e. cc_cv_step ct bv tgt cap dt mc cv i s1 = Inl e \<and> cc_cv_step ct bv tgt cap dt mc cv i s2 = Inl e"
    then show ?thesis by auto
  next
    assume "\<exists>a b. cc_cv_step ct bv tgt cap dt mc cv i s1 = Inr a \<and> cc_cv_step ct bv tgt cap dt mc cv i s2 = Inr b
        \<and> cc_cv_core a = cc_cv_core b"
    then obtain a b where ab: "cc_cv_step ct bv tgt cap dt mc cv i s1 = Inr a"
      "cc_cv_step ct bv tgt cap dt mc cv i s2 = Inr b" "cc_cv_core a = cc_cv_core b" by blast
    from Suc.IH[OF ab(3), of "Suc i"] ab(1,2) show ?thesis by simp
  qed
qed

lemma soc_and_completed_noise:
  "soc_and_completed (generate_cc_cv_profile self g1 charging_type initial_soc target_soc
       battery_capacity_kwh duration_seconds dt)
   = soc_and_completed (generate_cc_cv_profile self g2 charging_type initial_soc target_soc
       battery_capacity_kwh duration_seconds dt)"
proof -
  let ?init = "\<lambda>g. \<lparr>current_soc = initial_soc, completed = False, current_profile = [],
                          soc_profile = [], np_rng = g\<rparr>"
  have c: "cc_cv_core (?init g1) = cc_cv_core (?init g2)" by (simp add: cc_cv_core_def)
  have "soc_and_completed (case cc_cv_loop ct bv tgt cap dt' mc cv 0 n (?init g1) of
                 Inl e \<Rightarrow> Inl e
               | Inr st \<Rightarrow> Inr ((current_profile st, soc_profile st, completed st), np_rng st))
      = soc_and_completed (case cc_cv_loop ct bv tgt cap dt' mc cv 0 n (?init g2) of
                 Inl e \<Rightarrow> Inl e
               | Inr st \<Rightarrow> Inr ((current_profile st, soc_profile st, completed st), np_rng st))"
    for ct bv tgt cap dt' mc cv n
    using map_sum_id_eq_cases[OF cc_cv_loop_core[OF c, of ct bv tgt cap dt' mc cv 0 n]]
    by (auto simp: soc_and_completed_def cc_cv_core_def)
  then show ?thesis
    by (simp add: generate_cc_cv_profile_def Let_def)
qed

lemma add_variations_zero [simp]: "add_variations 0 g = (0, g)"
  by (simp add: add_variations_def)

lemma nominal_current_reached:
  "tgt \<le> s \<Longrightarrow> nominal_current ct tgt dt mc cv i s c = (0, True, False)"
  by (simp add: nominal_current_def)

lemma nominal_current_not_reached:
  "\<not> tgt \<le> s \<Longrightarrow> fst (snd (nominal_current ct tgt dt mc cv i s c)) = c"
  by (simp add: nominal_current_def Let_def)

lemma cc_cv_step_Inr:
  assumes "cc_cv_step ct bv tgt cap dt mc cv i st = Inr st'"
  shows "\<exists>cur. current_profile st' = current_profile st @ [cur]
           \<and> soc_profile st' = soc_profile st @ [current_soc st']
           \<and> (completed st' \<longleftrightarrow> completed st \<or> tgt \<le> current_soc st)
           \<and> (tgt \<le> current_soc st \<longrightarrow> cur = 0 \<and> current_soc st' = min (current_soc st) 100)"
proof (cases "tgt \<le> current_soc st")
  case True
  with assms show ?thesis
    by (auto simp: cc_cv_step_def nominal_current_reached Let_def split: if_splits)
next
  case False
  obtain cur c1 np where n: "nominal_current ct tgt dt mc cv i (current_soc st) (completed st) = (cur, c1, np)"
    by (cases "nominal_current ct tgt dt mc cv i (current_soc st) (completed st)") auto
  have c1: "c1 = completed st"
    using nominal_current_not_reached[OF False, of ct dt mc cv i "completed st"] n by simp
  obtain cur1 g1 where a: "add_variations cur (np_rng st) = (cur1, g1)"
    by (cases "add_variations cur (np_rng st)") auto
  from assms n a c1 False show ?thesis
    by (auto simp: cc_cv_step_def Let_def split: if_splits)
qed

lemma soc_at_start_append:
  "k \<le> length socs \<Longrightarrow> soc_at_start s0 (socs @ [x]) k = soc_at_start s0 socs k"
  by (auto simp: soc_at_start_def nth_append)

lemma soc_at_start_last:
  "soc_at_start s0 (socs @ [x]) (Suc (length socs)) = x"
  by (simp add: soc_at_start_def)

lemma cc_cv_step_inv:
  assumes inv: "cc_cv_inv s0 tgt i st"
    and step: "cc_cv_step ct bv tgt cap dt mc cv i st = Inr st'"
  shows "cc_cv_inv s0 tgt (Suc i) st'"
proof -
  from cc_cv_step_Inr[OF step] obtain cur where
    cp: "current_profile st' = current_profile st @ [cur]"
    and sp: "soc_profile st' = soc_profile st @ [current_soc st']"
    and co: "completed st' \<longleftrightarrow> completed st \<or> tgt \<le> current_soc st"
    and z: "tgt \<le> current_soc st \<longrightarrow> cur = 0 \<and> current_soc st' = min (current_soc st) 100"
    by blast
  from inv have l1: "length (current_profile st) = i" and l2: "length (soc_profile st) = i"
    and cs: "current_soc st = soc_at_start s0 (soc_profile st) i"
    and cm: "completed st \<longleftrightarrow> (\<exists>k<i. tgt \<le> soc_at_start s0 (soc_profile st) k)"
    and zs: "\<forall>k<i. tgt \<le> soc_at_start s0 (soc_profile st) k
            \<longrightarrow> current_profile st ! k = 0 \<and> (tgt \<le> 100 \<longrightarrow> tgt \<le> soc_profile st ! k)"
    by (simp_all add: cc_cv_inv_def)
  have old: "\<And>k. k \<le> i \<Longrightarrow> soc_at_start s0 (soc_profile st') k = soc_at_start s0 (soc_profile st) k"
    using l2 by (simp add: sp soc_at_start_append)
  have g1: "length (current_profile st') = Suc i" "length (soc_profile st') = Suc i"
    using l1 l2 by (simp_all add: cp sp)
  have g2: "current_soc st' = soc_at_start s0 (soc_profile st') (Suc i)"
    using l2 soc_at_start_last[of s0 "soc_profile st" "current_soc st'"] by (simp add: sp)
  have g3: "completed st' \<longleftrightarrow> (\<exists>k<Suc i. tgt \<le> soc_at_start s0 (soc_profile st') k)"
  proof
    assume "completed st'"
    with co cm cs show "\<exists>k<Suc i. tgt \<le> soc_at_start s0 (soc_profile st') k"
      by (metis old less_Suc_eq less_or_eq_imp_le order_refl)
  next
    assume "\<exists>k<Suc i. tgt \<le> soc_at_start s0 (soc_profile st') k"
    then obtain k where k: "k < Suc i" "tgt \<le> soc_at_start s0 (soc_profile st') k" by blast
    then have "tgt \<le> soc_at_start s0 (soc_profile st) k" using old[of k] by simp
    with k(1) co cm cs show "completed st'" by (cases "k = i") auto
  qed
  have g4: "\<forall>k<Suc i. tgt \<le> soc_at_start s0 (soc_profile st') k
            \<longrightarrow> current_profile st' ! k = 0 \<and> (tgt \<le> 100 \<longrightarrow> tgt \<le> soc_profile st' ! k)"
  proof (intro allI impI)
    fix k assume k: "k < Suc i" and r: "tgt \<le> soc_at_start s0 (soc_profile st') k"
    then have r': "tgt \<le> soc_at_start s0 (soc_profile st) k" using old[of k] by simp
    show "current_profile st' ! k = 0 \<and> (tgt \<le> 100 \<longrightarrow> tgt \<le> soc_profile st' ! k)"
    proof (cases "k = i")
      case True
      with r' cs have "tgt \<le> current_soc st" by simp
      with z have "cur = 0" "current_soc st' = min (current_soc st) 100" by simp_all
      with True l1 l2 \<open>tgt \<le> current_soc st\<close> show ?thesis
        by (simp add: cp sp nth_append)
    next
      case False
      with k have "k < i" by simp
      with zs r' l1 l2 show ?thesis by (simp add: cp sp nth_append)
    qed
  qed
  from g1 g2 g3 g4 show ?thesis unfolding cc_cv_inv_def by blast
qed

lemma cc_cv_loop_inv:
  "cc_cv_inv s0 tgt i st \<Longrightarrow> cc_cv_loop ct bv tgt cap dt mc cv i n st = Inr st'
   \<Longrightarrow> cc_cv_inv s0 tgt (i + n) st'"
proof (induction n arbitrary: i st)
  case 0
  then show ?case by simp
next
  case (Suc n)
  from Suc.prems(2) obtain st1 where s: "cc_cv_step ct bv tgt cap dt mc cv i st = Inr st1"
    and l: "cc_cv_loop ct bv tgt cap dt mc cv (Suc i) n st1 = Inr st'"
    by (auto split: sum.splits)
  from Suc.IH[OF cc_cv_step_inv[OF Suc.prems(1) s] l] show ?case by simp
qed

lemma cc_cv_inv_persist:
  assumes inv: "cc_cv_inv s0 tgt n st" and t: "tgt \<le> 100"
    and r: "tgt \<le> soc_profile st ! i" and ij: "i < j" and jn: "j < n"
  shows "tgt \<le> soc_at_start s0 (soc_profile st) j"
  using ij jn
proof (induction j)
  case 0
  then show ?case by simp
next
  case (Suc j)
  show ?case
  proof (cases "i = j")
    case True
    with r show ?thesis by (simp add: soc_at_start_def)
  next
    case False
    with Suc.prems have "i < j" "j < n" by simp_all
    from Suc.IH[OF this] have "tgt \<le> soc_at_start s0 (soc_profile st) j" .
    with inv t \<open>j < n\<close> have "tgt \<le> soc_profile st ! j" by (simp add: cc_cv_inv_def)
    then show ?thesis by (simp add: soc_at_start_def)
  qed
qed

lemma cc_cv_inv_init:
  "cc_cv_inv s0 tgt 0 \<lparr>current_soc = s0, completed = False, current_profile = [],
                          soc_profile = [], np_rng = g\<rparr>"
  by (simp add: cc_cv_inv_def soc_at_start_def)

lemma cc_cv_completed_flag_Inr:
  assumes "generate_cc_cv_profile self g charging_type initial_soc target_soc battery_capacity_kwh
             duration_seconds dt = Inr ((cur, socs, done), g')"
  shows "length cur = nat (py_int (real_of_int duration_seconds / dt))
     \<and> length socs = nat (py_int (real_of_int duration_seconds / dt))
     \<and> (done \<longleftrightarrow> (\<exists>i < length socs. target_soc \<le> soc_at_start initial_soc socs i))
     \<and> (\<forall>i < length socs. target_soc \<le> soc_at_start initial_soc socs i \<longrightarrow> cur ! i = 0)
     \<and> (target_soc \<le> 100 \<longrightarrow>
          (\<forall>i j. i < j \<and> j < length socs \<and> target_soc \<le> socs ! i \<longrightarrow> cur ! j = 0))"
proof -
  define n where "n = nat (py_int (real_of_int duration_seconds / dt))"
  from assms obtain st where
    l: "cc_cv_loop charging_type (battery_voltage self) target_soc battery_capacity_kwh dt
          (max_power_kw (CHARGING_SPECS charging_type) * 1000 / battery_voltage self)
          (if charging_type \<in> {DC_FAST, SUPERCHARGER} then 80.0 else 85.0) 0 n
          \<lparr>current_soc = initial_soc, completed = False, current_profile = [],
           soc_profile = [], np_rng = g\<rparr> = Inr st"
    and e: "cur = current_profile st" "socs = soc_profile st" "done = completed st"
    unfolding generate_cc_cv_profile_def Let_def n_def
    by (auto split: if_splits sum.splits)
  from cc_cv_loop_inv[OF cc_cv_inv_init l] have inv: "cc_cv_inv initial_soc target_soc n st" by simp
  have p1: "length cur = n" "length socs = n" using inv by (simp_all add: cc_cv_inv_def e)
  have p2: "done \<longleftrightarrow> (\<exists>i < length socs. target_soc \<le> soc_at_start initial_soc socs i)"
    using inv p1 by (simp add: cc_cv_inv_def e)
  have p3: "\<forall>i < length socs. target_soc \<le> soc_at_start initial_soc socs i \<longrightarrow> cur ! i = 0"
    using inv p1 by (simp add: cc_cv_inv_def e)
  have p4: "target_soc \<le> 100 \<longrightarrow>
          (\<forall>i j. i < j \<and> j < length socs \<and> target_soc \<le> socs ! i \<longrightarrow> cur ! j = 0)"
  proof (intro impI allI)
    fix i j assume t: "target_soc \<le> 100" and h: "i < j \<and> j < length socs \<and> target_soc \<le> socs ! i"
    then have "target_soc \<le> soc_at_start initial_soc socs j"
      using cc_cv_inv_persist[OF inv t, of i j] p1 by (simp add: e)
    with p3 h show "cur ! j = 0" by simp
  qed
  from p1 p2 p3 p4 show ?thesis unfolding n_def by blast
qed

lemma cc_cv_step_returns:
  "cap \<noteq> 0 \<Longrightarrow> \<exists>st'. cc_cv_step ct bv tgt cap dt mc cv i st = Inr st'"
  by (simp add: cc_cv_step_def Let_def split_beta)

lemma cc_cv_loop_returns:
  "cap \<noteq> 0 \<Longrightarrow> \<exists>st'. cc_cv_loop ct bv tgt cap dt mc cv i n st = Inr st'"
proof (induction n arbitrary: i st)
  case 0
  then show ?case by simp
next
  case (Suc n)
  from cc_cv_step_returns[OF Suc.prems, of ct bv tgt dt mc cv i st]
  obtain st1 where s: "cc_cv_step ct bv tgt cap dt mc cv i st = Inr st1" by blast
  from Suc.IH[OF Suc.prems, of "Suc i" st1] s show ?case by simp
qed

lemma generate_cc_cv_profile_returns:
  assumes "dt \<noteq> 0" and "battery_voltage self \<noteq> 0" and "battery_capacity_kwh \<noteq> 0"
  shows "\<exists>r. generate_cc_cv_profile self g charging_type initial_soc target_soc battery_capacity_kwh
             duration_seconds dt = Inr r"
proof -
  obtain st' where "cc_cv_loop charging_type (battery_voltage self) target_soc battery_capacity_kwh dt
          (max_power_kw (CHARGING_SPECS charging_type) * 1000 / battery_voltage self)
          (if charging_type \<in> {DC_FAST, SUPERCHARGER} then 80.0 else 85.0) 0
          (nat (py_int (real_of_int duration_seconds / dt)))
          \<lparr>current_soc = initial_soc, completed = False, current_profile = [],
           soc_profile = [], np_rng = g\<rparr> = Inr st'"
    using cc_cv_loop_returns[OF assms(3)] by blast
  then show ?thesis
    using assms(1,2) unfolding generate_cc_cv_profile_def Let_def by simp
qed

lemma cc_cv_run_two_noisy:
  "generate_cc_cv_profile (ChargingPatternGenerator_init 350) (sconst 1) AC_L2 50 50.0003 82 2 1
     = Inr (([0, 1111 / 350], [50, 1640011 / 32800], False), sconst 1)"
  by (simp add: generate_cc_cv_profile_def ChargingPatternGenerator_init_def py_int_def
     eval_nat_numeral cc_cv_step_def nominal_current_def add_variations_def Let_def)

lemma cc_cv_run_two:
  "generate_cc_cv_profile (ChargingPatternGenerator_init 350) (sconst 0) AC_L2 50 50.0003 82 2 1
     = Inr (([0, 11 / 5], [50, 1640011 / 32800], False), sconst 0)"
  by (simp add: generate_cc_cv_profile_def ChargingPatternGenerator_init_def py_int_def
     eval_nat_numeral cc_cv_step_def nominal_current_def add_variations_def Let_def)

lemma cc_cv_run_three:
  "generate_cc_cv_profile (ChargingPatternGenerator_init 350) (sconst 0) AC_L2 50 50.0003 82 3 1
     = Inr (([0, 11 / 5, 0], [50, 1640011 / 32800, 1640011 / 32800], True), sconst 0)"
  by (simp add: generate_cc_cv_profile_def ChargingPatternGenerator_init_def py_int_def
     eval_nat_numeral cc_cv_step_def nominal_current_def add_variations_def Let_def)


text \<open>
  C7, as amended. \<^verbatim>\<open>generate_cc_cv_profile\<close> tests the integrated SoC at the start of
  each sample. With a non-zero time step, battery voltage and capacity it returns
  profiles of \<^verbatim>\<open>int(duration_seconds / dt)\<close> samples; the flag is True exactly when
  some sample starts with the integrated SoC at or above the target (the initial SoC for
  the first sample, the SoC of the previous sample otherwise); every such sample has
  current exactly 0; and for a target of at most 100 every sample strictly after one
  whose SoC reached the target has current exactly 0.
\<close>

theorem cc_cv_completed_flag:
  assumes "dt \<noteq> 0" and "battery_voltage self \<noteq> 0" and "battery_capacity_kwh \<noteq> 0"
  shows "\<exists>cur socs done g'.
      generate_cc_cv_profile self g charging_type initial_soc target_soc battery_capacity_kwh
             duration_seconds dt = Inr ((cur, socs, done), g')
     \<and> length cur = nat (py_int (real_of_int duration_seconds / dt))
     \<and> length socs = nat (py_int (real_of_int duration_seconds / dt))
     \<and> (done \<longleftrightarrow> (\<exists>i < length socs. target_soc \<le> soc_at_start initial_soc socs i))
     \<and> (\<forall>i < length socs. target_soc \<le> soc_at_start initial_soc socs i \<longrightarrow> cur ! i = 0)
     \<and> (target_soc \<le> 100 \<longrightarrow>
          (\<forall>i j. i < j \<and> j < length socs \<and> target_soc \<le> socs ! i \<longrightarrow> cur ! j = 0))"
proof -
  from generate_cc_cv_profile_returns[OF assms] obtain r where
    "generate_cc_cv_profile self g charging_type initial_soc target_soc battery_capacity_kwh
             duration_seconds dt = Inr r" by blast
  then obtain cur socs fin g' where
    e: "generate_cc_cv_profile self g charging_type initial_soc target_soc battery_capacity_kwh
             duration_seconds dt = Inr ((cur, socs, fin), g')"
    by (cases r) auto
  from cc_cv_completed_flag_Inr[OF e] e show ?thesis by blast
qed

theorem cc_cv_completed_flag_witness:
  "(1::real) \<noteq> 0 \<and> battery_voltage (ChargingPatternGenerator_init 350) \<noteq> 0 \<and> (82::real) \<noteq> 0
   \<and> generate_cc_cv_profile (ChargingPatternGenerator_init 350) (sconst 0) AC_L2 50 50.0003 82 3 1
     = Inr (([0, 11 / 5, 0], [50, 1640011 / 32800, 1640011 / 32800], True), sconst 0)
   \<and> length [0, 11 / 5, 0 :: real] = nat (py_int (real_of_int 3 / 1))
   \<and> (True \<longleftrightarrow> (\<exists>i < length [50, 1640011 / 32800, 1640011 / 32800 :: real].
          50.0003 \<le> soc_at_start 50 [50, 1640011 / 32800, 1640011 / 32800] i))
   \<and> (50.0003 :: real) \<le> 100
   \<and> [0, 11 / 5, 0 :: real] ! 2 = 0"
proof -
  have h: "(1::real) \<noteq> 0" "battery_voltage (ChargingPatternGenerator_init 350) \<noteq> 0" "(82::real) \<noteq> 0"
    by (simp_all add: ChargingPatternGenerator_init_def)
  from cc_cv_completed_flag[OF h, of "sconst 0" AC_L2 50 "50.0003" 3]
  obtain cur socs fin g' where
    e: "generate_cc_cv_profile (ChargingPatternGenerator_init 350) (sconst 0) AC_L2 50 50.0003 82 3 1
          = Inr ((cur, socs, fin), g')"
    and l: "length cur = nat (py_int (real_of_int 3 / 1))"
    and c: "fin \<longleftrightarrow> (\<exists>i < length socs. 50.0003 \<le> soc_at_start 50 socs i)"
    by blast
  from e have v: "cur = [0, 11 / 5, 0]" "socs = [50, 1640011 / 32800, 1640011 / 32800]" "fin = True"
    unfolding cc_cv_run_three by simp_all
  have a: "length [0, 11 / 5, 0 :: real] = nat (py_int (real_of_int 3 / 1))"
    using l unfolding v .
  have b: "True \<longleftrightarrow> (\<exists>i < length [50, 1640011 / 32800, 1640011 / 32800 :: real].
          50.0003 \<le> soc_at_start 50 [50, 1640011 / 32800, 1640011 / 32800] i)"
    using c unfolding v .
  show ?thesis by (intro conjI cc_cv_run_three a b h) simp_all
qed

text \<open>
  C7 as stated fails when the SoC reaches the target at the last sample of the budget:
  with two samples the SoC of sample 1 is above the target, the flag is False, and the
  current of sample 1, the sample at which the target is reached, is not 0.
\<close>

theorem cc_cv_completed_counterexample:
  "generate_cc_cv_profile (ChargingPatternGenerator_init 350) (sconst 0) AC_L2 50 50.0003 82 2 1
     = Inr (([0, 11 / 5], [50, 1640011 / 32800], False), sconst 0)
   \<and> nat (py_int (real_of_int 2 / 1)) = 2
   \<and> (50.0003 :: real) \<le> [50, 1640011 / 32800] ! 1
   \<and> [0, 11 / 5 :: real] ! 1 \<noteq> 0"
  by (intro conjI cc_cv_run_two) (simp_all add: py_int_def)

text \<open>
  C10. The SoC profile and the completed flag (or the error) of
  \<^verbatim>\<open>generate_cc_cv_profile\<close> are the same for any two states of the random
  generator: the jitter and the dip are applied to the current after the SoC increment of
  the sample is computed. The current profile does vary: the two runs shown differ in it
  only.
\<close>

theorem soc_profile_independent_of_noise:
  "soc_and_completed (generate_cc_cv_profile self g1 charging_type initial_soc target_soc
       battery_capacity_kwh duration_seconds dt)
   = soc_and_completed (generate_cc_cv_profile self g2 charging_type initial_soc target_soc
       battery_capacity_kwh duration_seconds dt)
   \<and> generate_cc_cv_profile (ChargingPatternGenerator_init 350) (sconst 0) AC_L2 50 50.0003 82 2 1
     = Inr (([0, 11 / 5], [50, 1640011 / 32800], False), sconst 0)
   \<and> generate_cc_cv_profile (ChargingPatternGenerator_init 350) (sconst 1) AC_L2 50 50.0003 82 2 1
     = Inr (([0, 1111 / 350], [50, 1640011 / 32800], False), sconst 1)"
  by (intro conjI soc_and_completed_noise cc_cv_run_two cc_cv_run_two_noisy)


section \<open>Charging decision: safety charge and forced charge\<close>

lemma random_simps [simp]:
  "random_random g = (shd g, stl g)"
  "random_uniform a b g = (a + (b - a) * shd g, stl g)"
  by (simp_all add: random_random_def random_uniform_def draw_def)

lemma behavior_count_charge [simp]: "behavior (count_charge s) = behavior s"
  by (simp add: count_charge_def)

lemma track_days_forced:
  "4 \<le> days_since_last_charge s + 1 \<Longrightarrow> soc_v < 40 \<Longrightarrow>
   fst (track_days s g soc_v) = (True, preferred_soc_target (behavior s))"
  by (simp add: track_days_def Let_def)

lemma opportunity_charging_forced:
  assumes "4 \<le> days_since_last_charge s + 1" and "soc_v < 40"
  shows "fst (opportunity_charging s g soc_v hour) =
     (True,
      if real_of_int (charges_this_week s) < base_charges_per_week (behavior s)
         \<and> 6 < hour \<and> hour < 22 \<and> soc_v < preferred_soc_target (behavior s) * 0.7
         \<and> shd g < opportunity_charging_probability (behavior s)
      then daytime_target s g soc_v
      else preferred_soc_target (behavior s))"
  using track_days_forced[OF assms]
  by (auto simp: opportunity_charging_def daytime_target_def)

text \<open>
  C8, as amended. For every counter state, hour and day of the week the
  frequency-governed \<^verbatim>\<open>should_charge\<close> returns (True, preferred target) when the
  SoC is below 15. When the days since the last charge, counted with the present call as
  the method counts them, are at least 4 and the SoC is below 40, it returns True, and
  the target is the preferred target except exactly when the daytime opportunity charge
  fires first: the SoC is at least 15 and above the preferred minimum, the weekly budget
  (reset on day 6) is not used up, the hour is from 7 to 21, the SoC is below 70 percent
  of the target and the draw is below the opportunity probability. Then the target is
  the drawn partial target capped at 95.
\<close>

theorem should_charge_safety_and_force:
  "(current_soc_v < 15 \<longrightarrow>
      fst (should_charge s g current_soc_v hour day_of_week) = (True, preferred_soc_target (behavior s)))
   \<and> (4 \<le> days_since_last_charge s + 1 \<and> current_soc_v < 40 \<longrightarrow>
        fst (should_charge s g current_soc_v hour day_of_week) =
          (True,
           if 15 \<le> current_soc_v \<and> preferred_soc_min (behavior s) < current_soc_v
              \<and> real_of_int (if day_of_week = 6 then 0 else charges_this_week s)
                    < base_charges_per_week (behavior s)
              \<and> 6 < hour \<and> hour < 22
              \<and> current_soc_v < preferred_soc_target (behavior s) * 0.7
              \<and> shd g < opportunity_charging_probability (behavior s)
           then daytime_target s g current_soc_v
           else preferred_soc_target (behavior s)))"
proof (intro conjI impI)
  assume "current_soc_v < 15"
  then show "fst (should_charge s g current_soc_v hour day_of_week) = (True, preferred_soc_target (behavior s))"
    by (simp add: should_charge_def Let_def)
next
  assume h: "4 \<le> days_since_last_charge s + 1 \<and> current_soc_v < 40"
  define s1 where "s1 = (if day_of_week = 6 then s\<lparr>charges_this_week := 0\<rparr> else s)"
  have b: "behavior s1 = behavior s" "days_since_last_charge s1 = days_since_last_charge s"
    by (simp_all add: s1_def)
  have c: "charges_this_week s1 = (if day_of_week = 6 then 0 else charges_this_week s)"
    by (simp add: s1_def)
  have d: "daytime_target s1 g current_soc_v = daytime_target s g current_soc_v"
    by (simp add: daytime_target_def b)
  from h b have h1: "4 \<le> days_since_last_charge s1 + 1" "current_soc_v < 40" by simp_all
  note o = opportunity_charging_forced[OF h1, of g hour, unfolded b c d]
  have e: "should_charge s g current_soc_v hour day_of_week =
     (if current_soc_v < 15 then ((True, preferred_soc_target (behavior s)), s1, g)
      else if current_soc_v \<le> preferred_soc_min (behavior s) then
           (if real_of_int (if day_of_week = 6 then 0 else charges_this_week s)
                 < base_charges_per_week (behavior s)
            then ((True, preferred_soc_target (behavior s)), count_charge s1, g)
            else if current_soc_v < 20
                 then ((True, preferred_soc_target (behavior s)), s1, g)
                 else opportunity_charging s1 g current_soc_v hour)
      else opportunity_charging s1 g current_soc_v hour)"
    unfolding should_charge_def Let_def s1_def[symmetric] b c by simp
  show "fst (should_charge s g current_soc_v hour day_of_week) =
          (True,
           if 15 \<le> current_soc_v \<and> preferred_soc_min (behavior s) < current_soc_v
              \<and> real_of_int (if day_of_week = 6 then 0 else charges_this_week s)
                    < base_charges_per_week (behavior s)
              \<and> 6 < hour \<and> hour < 22
              \<and> current_soc_v < preferred_soc_target (behavior s) * 0.7
              \<and> shd g < opportunity_charging_probability (behavior s)
           then daytime_target s g current_soc_v
           else preferred_soc_target (behavior s))"
  proof (cases "current_soc_v < 15")
    case True
    then show ?thesis unfolding e by simp
  next
    case False
    note n15 = this
    show ?thesis
    proof (cases "current_soc_v \<le> preferred_soc_min (behavior s)")
      case True
      show ?thesis
      proof (cases "real_of_int (if day_of_week = 6 then 0 else charges_this_week s)
                 < base_charges_per_week (behavior s)")
        case True
        with n15 \<open>current_soc_v \<le> preferred_soc_min (behavior s)\<close> show ?thesis
          unfolding e by simp
      next
        case False
        with n15 True o show ?thesis unfolding e by simp
      qed
    next
      case False
      with n15 o show ?thesis unfolding e by simp
    qed
  qed
qed

lemma stranded_user_run:
  "fst (should_charge stranded_user (sconst (1 / 4)) 30 12 0) = (True, 55)"
  by (simp add: should_charge_def opportunity_charging_def stranded_user_def
      UserBehaviorSimulator_init_def Let_def)

text \<open>
  C8 as stated fails: four days after the last charge, at 30 percent and at noon, the
  daytime opportunity charge returns the drawn target 55, not the preferred target 85.
\<close>

theorem should_charge_force_counterexample:
  "4 \<le> days_since_last_charge stranded_user \<and> (30::real) < 40
   \<and> fst (should_charge stranded_user (sconst (1 / 4)) 30 12 0) = (True, 55)
   \<and> preferred_soc_target (behavior stranded_user) = 85"
  by (intro conjI stranded_user_run) (simp_all add: stranded_user_def UserBehaviorSimulator_init_def)

theorem should_charge_safety_and_force_witness:
  "(10::real) < 15
   \<and> fst (should_charge stranded_user (sconst (1 / 4)) 10 12 0) = (True, 85)
   \<and> 4 \<le> days_since_last_charge stranded_user + 1 \<and> (30::real) < 40
   \<and> fst (should_charge stranded_user (sconst (1 / 4)) 30 12 0) = (True, 55)
   \<and> daytime_target stranded_user (sconst (1 / 4)) 30 = 55
   \<and> fst (should_charge stranded_user (sconst (1 / 4)) 35 23 0) = (True, 85)
   \<and> fst (should_charge (stranded_user\<lparr>charges_this_week := 5\<rparr>) (sconst (1 / 4)) 30 12 0) = (True, 85)"
proof -
  have p: "preferred_soc_target (behavior stranded_user) = 85"
    "preferred_soc_min (behavior stranded_user) = 25"
    "base_charges_per_week (behavior stranded_user) = 4.5"
    "opportunity_charging_probability (behavior stranded_user) = 0.35"
    "days_since_last_charge stranded_user = 4"
    "charges_this_week stranded_user = 0"
    by (simp_all add: stranded_user_def UserBehaviorSimulator_init_def)
  have d: "daytime_target stranded_user (sconst (1 / 4)) 30 = 55"
    by (simp add: daytime_target_def p)
  have d5: "daytime_target (stranded_user\<lparr>charges_this_week := 5\<rparr>) (sconst (1 / 4)) 30 = 55"
    by (simp add: daytime_target_def p)
  have a: "fst (should_charge stranded_user (sconst (1 / 4)) 10 12 0) = (True, 85)"
    using should_charge_safety_and_force[of 10 stranded_user "sconst (1 / 4)" 12 0] by (simp add: p)
  have b: "fst (should_charge stranded_user (sconst (1 / 4)) 30 12 0) = (True, 55)"
    using should_charge_safety_and_force[of 30 stranded_user "sconst (1 / 4)" 12 0] by (simp add: p d)
  have c: "fst (should_charge stranded_user (sconst (1 / 4)) 35 23 0) = (True, 85)"
    using should_charge_safety_and_force[of 35 stranded_user "sconst (1 / 4)" 23 0] by (simp add: p)
  have e: "fst (should_charge (stranded_user\<lparr>charges_this_week := 5\<rparr>) (sconst (1 / 4)) 30 12 0) = (True, 85)"
    using should_charge_safety_and_force[of 30 "stranded_user\<lparr>charges_this_week := 5\<rparr>" "sconst (1 / 4)" 12 0]
    by (simp add: p d5)
  show ?thesis by (intro conjI a b c d e) (simp_all add: p)
qed


section \<open>Anomaly injection beyond the series\<close>

lemma py_index_beyond: "int (length xs) \<le> i \<Longrightarrow> py_index xs i = Inl IndexError"
  by (simp add: py_index_def)

lemma inject_one_thermal_beyond:
  assumes "base_data ''temperature'' = Some series" and "int (length series) \<le> start_idx"
  shows "inject_one base_data (''thermal'', start_idx, params) st = Inl IndexError"
  using assms py_index_beyond[OF assms(2)]
  by (cases st) (simp add: inject_one_def)

lemma inject_one_glitch_beyond:
  assumes "base_data ''voltage'' = Some series" and "int (length series) \<le> start_idx"
  shows "inject_one base_data (''sensor_glitch'', start_idx, params) st = Inl IndexError"
  using assms py_index_beyond[OF assms(2)]
  by (cases st) (simp add: inject_one_def)

text \<open>
  C3 does not hold of the code. \<^verbatim>\<open>inject_anomalies\<close> reads the normal value at
  \<^verbatim>\<open>base_data[...][start_idx]\<close> before it generates the anomaly: for a thermal (or
  sensor-glitch) request whose start index is at or beyond the length of the temperature
  (or voltage) series the read raises \<^verbatim>\<open>IndexError\<close>, so no event record is
  returned. The guard that truncates the writes is never reached.
\<close>

theorem inject_anomalies_beyond_length_raises:
  "(base_data ''temperature'' = Some series \<and> int (length series) \<le> start_idx \<longrightarrow>
      inject_anomalies base_data ((''thermal'', start_idx, params) # requests) dt g clk
        = Inl IndexError)
   \<and> (base_data ''voltage'' = Some series \<and> int (length series) \<le> start_idx \<longrightarrow>
      inject_anomalies base_data ((''sensor_glitch'', start_idx, params) # requests) dt g clk
        = Inl IndexError)"
  by (simp add: inject_anomalies_def inject_one_thermal_beyond inject_one_glitch_beyond)

theorem inject_anomalies_beyond_length_raises_witness:
  "short_telemetry ''temperature'' = Some [25, 26, 27] \<and> int (length [25, 26, 27 :: real]) \<le> 3
   \<and> inject_anomalies short_telemetry [(''thermal'', 3, no_params)] 1 (sconst 0) (sconst 0)
        = Inl IndexError
   \<and> short_telemetry ''voltage'' = Some [350, 351, 352] \<and> int (length [350, 351, 352 :: real]) \<le> 5
   \<and> inject_anomalies short_telemetry [(''sensor_glitch'', 5, no_params)] 1 (sconst 0) (sconst 0)
        = Inl IndexError"
proof -
  have t: "short_telemetry ''temperature'' = Some [25, 26, 27]"
    and v: "short_telemetry ''voltage'' = Some [350, 351, 352]"
    by (simp_all add: short_telemetry_def)
  have a: "inject_anomalies short_telemetry [(''thermal'', 3, no_params)] 1 (sconst 0) (sconst 0)
        = Inl IndexError"
    using inject_anomalies_beyond_length_raises[of short_telemetry "[25, 26, 27]" 3 no_params "[]" 1
        "sconst 0" "sconst 0"] t by simp
  have b: "inject_anomalies short_telemetry [(''sensor_glitch'', 5, no_params)] 1 (sconst 0) (sconst 0)
        = Inl IndexError"
    using inject_anomalies_beyond_length_raises[of short_telemetry "[350, 351, 352]" 5 no_params "[]" 1
        "sconst 0" "sconst 0"] v by simp
  show ?thesis by (intro conjI t v a b) simp_all
qed


section \<open>Simulation runs and the wall clock\<close>

lemma clock_hours:
  "datetime_hour 1700003600000000 = 23" "datetime_hour 1700050400000000 = 12"
  by (simp_all add: datetime_hour_def)

lemma clock_midnights:
  "replace_midnight 1700003600000000 = 1699920000000000"
  "replace_midnight 1700050400000000 = 1700006400000000"
  by (simp_all add: replace_midnight_def)

lemma VEHICLE_SPECS_VEH001: "VEHICLE_SPECS ''VEH001'' = Some VEH001"
  by (simp add: VEHICLE_SPECS_def)

lemma seed_generators_clock [simp]:
  "wall_clock (seed_generators f h seed w) = wall_clock w"
  by (simp add: seed_generators_def split: option.splits)

lemma seed_generators_zero [simp]: "seed_generators f h (Some 0) w = w"
  by (simp add: seed_generators_def)

lemma start_night:
  "map_sum id (fst \<circ> snd)
     (run_simulation_start py_choice py_seeded np_seeded ''VEH001'' (Some CAUTIOUS) (Some 42) (world_night g1 g2))
   = Inr 1699920000000000"
  by (simp add: run_simulation_start_def EVBatterySimulator_init_def VEHICLE_SPECS_VEH001 Let_def
      now_def world_night_def clock_midnights)

lemma start_noon:
  "map_sum id (fst \<circ> snd)
     (run_simulation_start py_choice py_seeded np_seeded ''VEH001'' (Some CAUTIOUS) (Some 42) (world_noon g1 g2))
   = Inr 1700006400000000"
  by (simp add: run_simulation_start_def EVBatterySimulator_init_def VEHICLE_SPECS_VEH001 Let_def
      now_def world_noon_def clock_midnights)

lemma check_night:
  "fst (schedule_charging_check cautious_simulator (world_night (sconst (4 / 5)) g2)) = (True, 95)"
  by (simp add: schedule_charging_check_def should_charge_v1_def cautious_simulator_def
      world_night_def now_def clock_hours BatteryModel_init_def Let_def)

lemma check_noon:
  "fst (schedule_charging_check cautious_simulator (world_noon (sconst (4 / 5)) g2)) = (False, 0)"
  by (simp add: schedule_charging_check_def should_charge_v1_def cautious_simulator_def
      world_noon_def now_def clock_hours BatteryModel_init_def Let_def)

lemma init_seed_zero:
  "map_sum id (py_random \<circ> snd)
     (EVBatterySimulator_init py_choice py_seeded np_seeded ''VEH001'' (Some CAUTIOUS) (Some 0) (world_noon g1 g2))
   = Inr g1"
  by (simp add: EVBatterySimulator_init_def VEHICLE_SPECS_VEH001 Let_def now_def world_noon_def)

lemma init_seed_42:
  "map_sum id (py_random \<circ> snd)
     (EVBatterySimulator_init py_choice py_seeded np_seeded ''VEH001'' (Some CAUTIOUS) (Some 42) (world_noon g1 g2))
   = Inr (py_seeded 42)"
  by (simp add: EVBatterySimulator_init_def VEHICLE_SPECS_VEH001 Let_def now_def world_noon_def
      seed_generators_def)

text \<open>
  C4 does not hold of the code. With the same vehicle, profile and seed 42, and whatever
  streams the seed gives, a run started on 2023-11-14 and a run started on 2023-11-15
  take different start dates from the wall clock, and every record is stamped from the
  start date. The charging check of the daily schedule passes the hour of the wall clock
  to \<^verbatim>\<open>should_charge\<close>: with the same generator and the battery at 75.5 percent a
  cautious driver charges at 23 h and does not at 12 h. With seed 0 the constructor does
  not seed at all: the generator is the one the environment had.
\<close>

theorem run_simulation_reads_wall_clock:
  "map_sum id (fst \<circ> snd)
     (run_simulation_start py_choice py_seeded np_seeded ''VEH001'' (Some CAUTIOUS) (Some 42) (world_night g1 g2))
     = Inr 1699920000000000
   \<and> map_sum id (fst \<circ> snd)
     (run_simulation_start py_choice py_seeded np_seeded ''VEH001'' (Some CAUTIOUS) (Some 42) (world_noon g1 g2))
     = Inr 1700006400000000
   \<and> current_date 1699920000000000 0 \<noteq> current_date 1700006400000000 0
   \<and> fst (schedule_charging_check cautious_simulator (world_night (sconst (4 / 5)) g2)) = (True, 95)
   \<and> fst (schedule_charging_check cautious_simulator (world_noon (sconst (4 / 5)) g2)) = (False, 0)
   \<and> map_sum id (py_random \<circ> snd)
     (EVBatterySimulator_init py_choice py_seeded np_seeded ''VEH001'' (Some CAUTIOUS) (Some 0) (world_noon g1 g2))
     = Inr g1"
  by (intro conjI start_night start_noon check_night check_noon init_seed_zero)
     (simp add: current_date_def timedelta_days_def)


end
